theory Spec2Isabelle
  imports Complex_Main
begin

section \<open>Numbers of the program\<close>

text \<open>
  The program computes with Python and numpy floating-point numbers. A number is modelled
  as a real or one of the three special values of binary64. Arithmetic on the special
  values follows IEEE 754 (as Python and numpy do). Addition, multiplication and division
  of two finite numbers are exact: their rounding, underflow and overflow (to an infinity,
  silently) are not part of this model. Overflow is modelled where it decides whether the
  program raises: in the powers and in the conversions of \<open>float()\<close>.
  The two signed zeros are one value (the program never divides by a zero, see below, so
  the sign of a zero is never observed). An \<open>int\<close> of the source (the literals \<open>0\<close>,
  \<open>100\<close>, \<open>1_000_000\<close>) is the finite number of the same value.
\<close>

datatype pyfloat = Fin real | PInf | NInf | NaN

definition is_nan :: "pyfloat \<Rightarrow> bool" where
  "is_nan x = (case x of NaN \<Rightarrow> True | _ \<Rightarrow> False)"

definition is_finite :: "pyfloat \<Rightarrow> bool" where
  "is_finite x = (case x of Fin r \<Rightarrow> True | _ \<Rightarrow> False)"

fun fneg :: "pyfloat \<Rightarrow> pyfloat" where
  "fneg (Fin x) = Fin (- x)"
| "fneg PInf = NInf"
| "fneg NInf = PInf"
| "fneg NaN = NaN"

fun fadd :: "pyfloat \<Rightarrow> pyfloat \<Rightarrow> pyfloat" where
  "fadd NaN y = NaN"
| "fadd x NaN = NaN"
| "fadd (Fin x) (Fin y) = Fin (x + y)"
| "fadd PInf NInf = NaN"
| "fadd NInf PInf = NaN"
| "fadd PInf y = PInf"
| "fadd NInf y = NInf"
| "fadd (Fin x) PInf = PInf"
| "fadd (Fin x) NInf = NInf"

definition fsub :: "pyfloat \<Rightarrow> pyfloat \<Rightarrow> pyfloat" where
  "fsub x y = fadd x (fneg y)"

text \<open>The sign of a product or quotient with an infinite operand.\<close>

definition signed_inf :: "bool \<Rightarrow> pyfloat" where
  "signed_inf positive = (if positive then PInf else NInf)"

fun fmul :: "pyfloat \<Rightarrow> pyfloat \<Rightarrow> pyfloat" where
  "fmul NaN y = NaN"
| "fmul x NaN = NaN"
| "fmul (Fin x) (Fin y) = Fin (x * y)"
| "fmul PInf (Fin y) = (if y = 0 then NaN else signed_inf (0 < y))"
| "fmul NInf (Fin y) = (if y = 0 then NaN else signed_inf (y < 0))"
| "fmul (Fin x) PInf = (if x = 0 then NaN else signed_inf (0 < x))"
| "fmul (Fin x) NInf = (if x = 0 then NaN else signed_inf (x < 0))"
| "fmul PInf PInf = PInf"
| "fmul NInf NInf = PInf"
| "fmul PInf NInf = NInf"
| "fmul NInf PInf = NInf"

text \<open>
  \<open>fdiv\<close> is the quotient for a divisor that is not zero; \<open>py_div\<close> below is the
  division of the source and never calls it with a zero divisor.
\<close>

fun fdiv :: "pyfloat \<Rightarrow> pyfloat \<Rightarrow> pyfloat" where
  "fdiv NaN y = NaN"
| "fdiv x NaN = NaN"
| "fdiv (Fin x) (Fin y) = Fin (x / y)"
| "fdiv PInf (Fin y) = signed_inf (0 \<le> y)"
| "fdiv NInf (Fin y) = signed_inf (y < 0)"
| "fdiv (Fin x) PInf = Fin 0"
| "fdiv (Fin x) NInf = Fin 0"
| "fdiv PInf PInf = NaN"
| "fdiv NInf NInf = NaN"
| "fdiv PInf NInf = NaN"
| "fdiv NInf PInf = NaN"

text \<open>Comparisons: every ordered comparison with a not-a-number is false, \<open>!=\<close> is true.\<close>

fun flt :: "pyfloat \<Rightarrow> pyfloat \<Rightarrow> bool" where
  "flt NaN y = False"
| "flt x NaN = False"
| "flt (Fin x) (Fin y) = (x < y)"
| "flt x NInf = False"
| "flt PInf y = False"
| "flt NInf y = True"
| "flt (Fin x) PInf = True"

definition fgt :: "pyfloat \<Rightarrow> pyfloat \<Rightarrow> bool" where
  "fgt x y = flt y x"

definition feq :: "pyfloat \<Rightarrow> pyfloat \<Rightarrow> bool" where
  "feq x y = (\<not> is_nan x \<and> x = y)"

definition fne :: "pyfloat \<Rightarrow> pyfloat \<Rightarrow> bool" where
  "fne x y = (\<not> feq x y)"

definition fle :: "pyfloat \<Rightarrow> pyfloat \<Rightarrow> bool" where
  "fle x y = (flt x y \<or> feq x y)"

text \<open>
  A real number overflows binary64 when rounding it to nearest gives an infinity: from
  \<open>2^1024 - 2^970\<close> on, in absolute value.
\<close>

definition overflow_bound :: real where
  "overflow_bound = 2 ^ 1024 - 2 ^ 970"

definition overflows :: "real \<Rightarrow> bool" where
  "overflows r = (overflow_bound \<le> \<bar>r\<bar>)"

text \<open>It underflows when rounding it gives zero: up to \<open>2^-1075\<close>, in absolute value.\<close>

definition underflows :: "real \<Rightarrow> bool" where
  "underflows r = (\<bar>r\<bar> \<le> 1 / 2 ^ 1075)"

text \<open>
  \<open>x ** n\<close> for a numpy float64 \<open>x\<close> and a natural exponent (the source uses \<open>i + 1\<close>
  for \<open>i\<close> in \<open>range(5)\<close>): \<open>x ** 0\<close> is 1 for every \<open>x\<close>, also for a not-a-number;
  a finite power that overflows is an infinity (numpy warns and goes on).
\<close>

fun np_pow :: "pyfloat \<Rightarrow> nat \<Rightarrow> pyfloat" where
  "np_pow x 0 = Fin 1"
| "np_pow (Fin x) n = (if overflows (x ^ n) then signed_inf (0 < x ^ n) else Fin (x ^ n))"
| "np_pow PInf n = PInf"
| "np_pow NInf n = (if even n then PInf else NInf)"
| "np_pow NaN n = NaN"

text \<open>
  \<open>x ** y\<close> for a numpy scalar \<open>x\<close> and an exponent \<open>0 < y < 1\<close> (the source uses
  \<open>1/5\<close>): a negative base gives not-a-number (numpy does not go to the complex
  numbers), minus infinity gives plus infinity.
\<close>

fun fpow_frac :: "pyfloat \<Rightarrow> real \<Rightarrow> pyfloat" where
  "fpow_frac (Fin x) y = (if x < 0 then NaN else if x = 0 then Fin 0 else Fin (x powr y))"
| "fpow_frac PInf y = PInf"
| "fpow_frac NInf y = PInf"
| "fpow_frac NaN y = NaN"

text \<open>The built-in \<open>max(a, b)\<close> of Python: \<open>b\<close> if \<open>b > a\<close>, else \<open>a\<close>.\<close>

definition py_max :: "pyfloat \<Rightarrow> pyfloat \<Rightarrow> pyfloat" where
  "py_max a b = (if fgt b a then b else a)"

subsection \<open>Errors\<close>

text \<open>
  The exceptions of the program. \<open>ProviderError\<close> stands for whatever a call to the data
  provider raises (a network or parsing error of the yfinance library).
\<close>

datatype error =
  ZeroDivisionError | ValueError | TypeError | OverflowError | KeyError | ProviderError

definition bindE :: "error + 'a \<Rightarrow> ('a \<Rightarrow> error + 'b) \<Rightarrow> error + 'b" where
  "bindE m f = (case m of Inl e \<Rightarrow> Inl e | Inr v \<Rightarrow> f v)"

text \<open>
  \<open>x ** n\<close> for a Python float \<open>x\<close>: as for numpy, but a finite power that overflows
  raises OverflowError.
\<close>

definition py_pow :: "pyfloat \<Rightarrow> nat \<Rightarrow> error + pyfloat" where
  "py_pow x n =
     (case x of
        Fin r \<Rightarrow> if n \<noteq> 0 \<and> overflows (r ^ n) then Inl OverflowError else Inr (np_pow x n)
      | _ \<Rightarrow> Inr (np_pow x n))"

text \<open>
  The division \<open>a / b\<close> of the source. A Python float divided by zero raises
  ZeroDivisionError (a numpy scalar gives an infinity or not-a-number with a warning);
  the model takes the stricter of the two, so that a result \<open>Inr\<close> means that neither
  happened.
\<close>

definition py_div :: "pyfloat \<Rightarrow> pyfloat \<Rightarrow> error + pyfloat" where
  "py_div a b = (if b = Fin 0 then Inl ZeroDivisionError else Inr (fdiv a b))"

text \<open>\<open>np.mean\<close> of a list: the sum over the length.\<close>

definition fsum :: "pyfloat list \<Rightarrow> pyfloat" where
  "fsum xs = foldl fadd (Fin 0) xs"

definition np_mean :: "pyfloat list \<Rightarrow> pyfloat" where
  "np_mean xs = (if xs = [] then NaN else fdiv (fsum xs) (Fin (real (length xs))))"

text \<open>
  \<open>np.nanmean\<close>: the mean of the entries that are not not-a-number; not-a-number when
  there is none.
\<close>

definition np_nanmean :: "pyfloat list \<Rightarrow> pyfloat" where
  "np_nanmean xs = np_mean (filter (\<lambda>x. \<not> is_nan x) xs)"

section \<open>Values and tables read by the program\<close>

text \<open>
  A value of the profile record (\<open>stock.info\<close>): a float (Python or numpy), an \<open>int\<close>,
  a \<open>bool\<close>, \<open>None\<close> (or another pandas null), a string, or any other object (a list,
  a dict) on which \<open>float()\<close> raises TypeError.
\<close>

datatype pyval = PFloat pyfloat | PInt int | PBool bool | PNone | PStr string | PObj

subsection \<open>\<open>float()\<close> on a string\<close>

text \<open>
  Python's grammar for \<open>float(s)\<close> on an ASCII string: surrounding whitespace is
  stripped; then an optional sign; then \<open>nan\<close>, \<open>inf\<close> or \<open>infinity\<close> in any case, or a
  decimal number: digits with an optional fraction and an optional exponent, where single
  underscores may stand between digits. A decimal number that overflows is an infinity,
  one that underflows is zero. Anything else raises ValueError (\<open>None\<close> here).
\<close>

definition is_space :: "char \<Rightarrow> bool" where
  "is_space c =
     (c \<in> set [CHR '' '', CHR 0x09, CHR 0x0A, CHR 0x0B, CHR 0x0C, CHR 0x0D,
                CHR 0x1C, CHR 0x1D, CHR 0x1E, CHR 0x1F])"

definition strip :: "string \<Rightarrow> string" where
  "strip s = rev (dropWhile is_space (rev (dropWhile is_space s)))"

definition is_digit :: "char \<Rightarrow> bool" where
  "is_digit c = (c \<in> set ''0123456789'')"

definition digit_val :: "char \<Rightarrow> nat" where
  "digit_val c = of_char c - 48"

definition lower :: "char \<Rightarrow> char" where
  "lower c =
     (case map_of (zip ''ABCDEFGHIJKLMNOPQRSTUVWXYZ'' ''abcdefghijklmnopqrstuvwxyz'') c of
        Some l \<Rightarrow> l
      | None \<Rightarrow> c)"

text \<open>The digits after a first digit, with the value so far; an underscore needs a digit after it.\<close>

fun digits_from :: "nat \<Rightarrow> string \<Rightarrow> nat option" where
  "digits_from acc [] = Some acc"
| "digits_from acc [c] = (if is_digit c then Some (10 * acc + digit_val c) else None)"
| "digits_from acc (c # d # cs) =
     (if is_digit c then digits_from (10 * acc + digit_val c) (d # cs)
      else if c = CHR ''_'' \<and> is_digit d then digits_from (10 * acc + digit_val d) cs
      else None)"

definition digitpart :: "string \<Rightarrow> nat option" where
  "digitpart s =
     (case s of
        [] \<Rightarrow> None
      | c # cs \<Rightarrow> if is_digit c then digits_from (digit_val c) cs else None)"

text \<open>The part before the exponent: \<open>12\<close>, \<open>12.\<close>, \<open>12.5\<close> or \<open>.5\<close>.\<close>

definition mantissa :: "string \<Rightarrow> real option" where
  "mantissa s =
     (let ip = takeWhile (\<lambda>c. c \<noteq> CHR ''.'') s;
          rest = dropWhile (\<lambda>c. c \<noteq> CHR ''.'') s
      in case rest of
           [] \<Rightarrow> map_option real (digitpart ip)
         | dot # fp \<Rightarrow>
             if ip = []
             then map_option (\<lambda>f. real f / 10 ^ length (filter is_digit fp)) (digitpart fp)
             else if fp = [] then map_option real (digitpart ip)
             else (case (digitpart ip, digitpart fp) of
                     (Some i, Some f) \<Rightarrow>
                       Some (real i + real f / 10 ^ length (filter is_digit fp))
                   | _ \<Rightarrow> None))"

text \<open>An optional sign: whether it is a minus, and what follows it.\<close>

definition sign_split :: "string \<Rightarrow> bool \<times> string" where
  "sign_split s =
     (case s of
        [] \<Rightarrow> (False, [])
      | c # cs \<Rightarrow>
          if c = CHR ''-'' then (True, cs) else if c = CHR ''+'' then (False, cs) else (False, s))"

definition is_exp_mark :: "char \<Rightarrow> bool" where
  "is_exp_mark c = (c = CHR ''e'' \<or> c = CHR ''E'')"

definition decimal :: "string \<Rightarrow> real option" where
  "decimal s =
     (let m = takeWhile (\<lambda>c. \<not> is_exp_mark c) s;
          rest = dropWhile (\<lambda>c. \<not> is_exp_mark c) s
      in case rest of
           [] \<Rightarrow> mantissa m
         | e # ex \<Rightarrow>
             (case (mantissa m, digitpart (snd (sign_split ex))) of
                (Some v, Some n) \<Rightarrow>
                  Some (if fst (sign_split ex) then v / 10 ^ n else v * 10 ^ n)
              | _ \<Rightarrow> None))"

definition float_of_string :: "string \<Rightarrow> pyfloat option" where
  "float_of_string s =
     (let neg = fst (sign_split (strip s));
          body = snd (sign_split (strip s));
          word = map lower body
      in if word = ''nan'' then Some NaN
         else if word = ''inf'' \<or> word = ''infinity'' then Some (signed_inf (\<not> neg))
         else (case decimal body of
                 None \<Rightarrow> None
               | Some v \<Rightarrow>
                   Some (if overflows v then signed_inf (\<not> neg)
                         else if underflows v then Fin 0
                         else Fin (if neg then - v else v))))"

subsection \<open>The coercion utility\<close>

definition pd_notna :: "pyval \<Rightarrow> bool" where
  "pd_notna v = (case v of PFloat x \<Rightarrow> \<not> is_nan x | PNone \<Rightarrow> False | _ \<Rightarrow> True)"

text \<open>
  \<open>float(v)\<close>: a float as it is, an \<open>int\<close> as the float of its value (OverflowError when
  it is too large), a \<open>bool\<close> as 1 or 0, a string by the grammar above.
\<close>

definition py_float :: "pyval \<Rightarrow> error + pyfloat" where
  "py_float v =
     (case v of
        PFloat x \<Rightarrow> Inr x
      | PInt i \<Rightarrow> if overflows (real_of_int i) then Inl OverflowError else Inr (Fin (real_of_int i))
      | PBool b \<Rightarrow> Inr (Fin (if b then 1 else 0))
      | PNone \<Rightarrow> Inl TypeError
      | PStr s \<Rightarrow> (case float_of_string s of None \<Rightarrow> Inl ValueError | Some x \<Rightarrow> Inr x)
      | PObj \<Rightarrow> Inl TypeError)"

text \<open>
  The record-like container of \<open>safe_get\<close>: a pandas Series (its labels and values, in
  order; a label may occur more than once), a pandas DataFrame (its row labels and its
  column labels), or a dict.
\<close>

datatype container =
  Series "(string \<times> pyval) list"
| DataFrame "string list" "string list"
| Dict "string \<rightharpoonup> pyval"

text \<open>
  \<open>safe_get\<close> (lines 12 to 24). \<open>safe_get_try\<close> is the body of the \<open>try\<close>, which can
  raise; \<open>safe_get\<close> adds the bare \<open>except\<close>. The default (\<open>dflt\<close>) is a number at
  every call site (0 or the last closing price).

  In the pandas branch \<open>obj[key]\<close> is the value of the label when a Series has the label
  once; it is a Series when the label occurs more than once, and for a DataFrame it is
  the column \<open>key\<close> (KeyError when there is no such column). The truth value of a Series
  (here \<open>pd.notna(val)\<close>) raises ValueError.
\<close>

definition coerce_or_default :: "pyval \<Rightarrow> pyfloat \<Rightarrow> error + pyfloat" where
  "coerce_or_default val dflt = (if pd_notna val \<and> val \<noteq> PNone then py_float val else Inr dflt)"

definition safe_get_try :: "container \<Rightarrow> string \<Rightarrow> pyfloat \<Rightarrow> error + pyfloat" where
  "safe_get_try obj key dflt =
     (case obj of
        Series rows \<Rightarrow>
          (if key \<in> fst ` set rows
           then (case filter (\<lambda>r. fst r = key) rows of
                   [r] \<Rightarrow> coerce_or_default (snd r) dflt
                 | _ \<Rightarrow> Inl ValueError)
           else Inr dflt)
      | DataFrame idx columns \<Rightarrow>
          (if key \<in> set idx
           then (if key \<in> set columns then Inl ValueError else Inl KeyError)
           else Inr dflt)
      | Dict m \<Rightarrow>
          (let val = (case m key of Some v \<Rightarrow> v | None \<Rightarrow> PFloat dflt)
           in coerce_or_default val dflt))"

definition safe_get :: "container \<Rightarrow> string \<Rightarrow> pyfloat \<Rightarrow> pyfloat" where
  "safe_get obj key dflt =
     (case safe_get_try obj key dflt of Inr x \<Rightarrow> x | Inl e \<Rightarrow> dflt)"

text \<open>
  A statement table (a pandas DataFrame): the row labels (\<open>index\<close>; a label is in the
  table when it is in this list), the number of columns (\<open>len(columns)\<close>, the periods,
  most recent first) and the cells. Labels are unique and every row has one cell per
  column, as in a DataFrame. A cell is a float64 and may be not-a-number.
\<close>

record frame =
  index :: "string list"
  ncols :: nat
  cell :: "string \<Rightarrow> nat \<Rightarrow> pyfloat"

text \<open>\<open>df.empty\<close>: an axis of length 0.\<close>

definition frame_empty :: "frame \<Rightarrow> bool" where
  "frame_empty df = (index df = [] \<or> ncols df = 0)"

text \<open>\<open>df.loc[k]\<close> for a label of the index: the row, a Series over the columns.\<close>

definition loc :: "frame \<Rightarrow> string \<Rightarrow> pyfloat list" where
  "loc df k = map (cell df k) [0..<ncols df]"

text \<open>\<open>df.iloc[:, i:j]\<close>: the columns from \<open>i\<close> to \<open>j\<close> (exclusive), those that exist.\<close>

definition iloc_cols :: "frame \<Rightarrow> nat \<Rightarrow> nat \<Rightarrow> frame" where
  "iloc_cols df i j =
     \<lparr>index = index df, ncols = min j (ncols df) - i, cell = (\<lambda>k c. cell df k (i + c))\<rparr>"

text \<open>\<open>get_equity_from_balance_sheet\<close> (lines 26 to 41).\<close>

definition candidates :: "string list" where
  "candidates =
     [''Total Stockholder Equity'',
      ''Total Equity'',
      ''Stockholders Equity'',
      ''Total shareholders'' @ [CHR 0x27] @ '' equity'',
      ''Total Shareholders Equity'',
      ''Ordinary Shares'',
      ''Total liabilities and equity'']"

fun equity_loop :: "frame \<Rightarrow> string list \<Rightarrow> pyfloat" where
  "equity_loop bs [] = Fin 0"
| "equity_loop bs (key # keys) =
     (if key \<in> set (index bs) \<and> loc bs key \<noteq> [] then loc bs key ! 0
      else equity_loop bs keys)"

definition get_equity_from_balance_sheet :: "frame \<Rightarrow> pyfloat" where
  "get_equity_from_balance_sheet bs = equity_loop bs candidates"

text \<open>\<open>get_from_financials\<close> (lines 43 to 49); the offset is a natural number at every call.\<close>

fun get_from_financials :: "frame \<Rightarrow> string list \<Rightarrow> nat \<Rightarrow> pyfloat" where
  "get_from_financials fin [] idx = Fin 0"
| "get_from_financials fin (k # key_list) idx =
     (if k \<in> set (index fin) \<and> loc fin k \<noteq> [] \<and> idx < length (loc fin k) then loc fin k ! idx
      else get_from_financials fin key_list idx)"

section \<open>The fundamentals assembler\<close>

text \<open>
  The dict returned by \<open>fetch_fundamental_data\<close> (lines 99 to 114), one field per key:
  "Shares (in Million)", "Last Price", "Pendapatan", "Profit", "Equity", "ROE (Annual)",
  "ROE (in 5 Years)", "EPS Growth (in 5 Years)", "SPS Growth (Annual)",
  "SPS Growth (in 5 Years)", "Dividend Payout Ratio (DPR%)", "Average PBV", "Average PER",
  "Average PSR". The same record is what the projection reads (\<open>defaults\<close>, or the
  operator's values in manual mode).
\<close>

record resolved =
  Shares :: pyfloat
  Last_Price :: pyfloat
  Pendapatan :: pyfloat
  Profit :: pyfloat
  Equity :: pyfloat
  ROE_Annual :: pyfloat
  ROE_5_Years :: pyfloat
  EPS_Growth_5_Years :: pyfloat
  SPS_Growth_Annual :: pyfloat
  SPS_Growth_5_Years :: pyfloat
  DPR :: pyfloat
  Average_PBV :: pyfloat
  Average_PER :: pyfloat
  Average_PSR :: pyfloat

text \<open>
  What the provider object \<open>stock\<close> gives (lines 54 to 58): the profile record
  \<open>stock.info\<close>, the income statement \<open>stock.financials\<close>, the balance sheet
  \<open>stock.balance_sheet\<close> and the price history \<open>stock.history(period="5y")\<close>, each
  either a value or the exception the call raises. The price history is held transposed:
  a row per column name (\<open>Open\<close>, \<open>Close\<close>, ...) and a column per trading day, oldest
  first.
\<close>

record provider =
  stock_info :: "error + container"
  stock_financials :: "error + frame"
  stock_balance_sheet :: "error + frame"
  stock_history :: "error + frame"

text \<open>Lines 63 and 64.\<close>

definition fetch_shares :: "container \<Rightarrow> error + pyfloat" where
  "fetch_shares info =
     (let shares_outstanding = safe_get info ''sharesOutstanding'' (Fin 0)
      in if fgt shares_outstanding (Fin 0) then py_div shares_outstanding (Fin 1000000)
         else Inr (Fin 0))"

text \<open>
  Line 65. The default is evaluated before the call: \<open>history['Close']\<close> raises KeyError
  when a non-empty history has no column \<open>Close\<close>.
\<close>

definition last_close :: "frame \<Rightarrow> error + pyfloat" where
  "last_close history =
     (if \<not> frame_empty history
      then (if ''Close'' \<in> set (index history)
            then Inr (cell history ''Close'' (ncols history - 1))
            else Inl KeyError)
      else Inr (Fin 0))"

definition fetch_last_price :: "container \<Rightarrow> frame \<Rightarrow> error + pyfloat" where
  "fetch_last_price info history =
     bindE (last_close history) (\<lambda>dflt. Inr (safe_get info ''currentPrice'' dflt))"

text \<open>Line 71.\<close>

definition fetch_roe_annual :: "pyfloat \<Rightarrow> pyfloat \<Rightarrow> error + pyfloat" where
  "fetch_roe_annual net_income equity =
     (if fne equity (Fin 0)
      then bindE (py_div net_income equity) (\<lambda>q. Inr (fmul q (Fin 100)))
      else Inr (Fin 0))"

text \<open>
  Lines 73 to 79: the loop over \<open>range(min(5, len(financials.columns)))\<close>, with the list
  \<open>roes\<close> as accumulator, then the mean.
\<close>

fun roes_loop :: "frame \<Rightarrow> frame \<Rightarrow> nat list \<Rightarrow> pyfloat list \<Rightarrow> error + pyfloat list" where
  "roes_loop financials balance_sheet [] roes = Inr roes"
| "roes_loop financials balance_sheet (i # rest) roes =
     (let ni = get_from_financials financials [''Net Income''] i;
          eq = get_equity_from_balance_sheet (iloc_cols balance_sheet i (i + 1))
      in if fne eq (Fin 0)
         then bindE (py_div ni eq)
                (\<lambda>q. roes_loop financials balance_sheet rest (roes @ [fmul q (Fin 100)]))
         else roes_loop financials balance_sheet rest roes)"

definition fetch_roe_5y :: "frame \<Rightarrow> frame \<Rightarrow> error + pyfloat" where
  "fetch_roe_5y financials balance_sheet =
     bindE (roes_loop financials balance_sheet [0..<min 5 (ncols financials)] [])
       (\<lambda>roes. Inr (if roes \<noteq> [] then np_mean roes else Fin 0))"

text \<open>Lines 81 to 83.\<close>

definition fetch_eps_growth_5y :: "container \<Rightarrow> pyfloat" where
  "fetch_eps_growth_5y info =
     (let eps_growth_5y = fmul (safe_get info ''earningsGrowth'' (Fin 0)) (Fin 100)
      in if feq eps_growth_5y (Fin 0)
         then fmul (safe_get info ''earningsQuarterlyGrowth'' (Fin 0)) (Fin 100)
         else eps_growth_5y)"

text \<open>Lines 87 to 93.\<close>

definition fetch_payout_ratio :: "container \<Rightarrow> pyfloat \<Rightarrow> error + pyfloat" where
  "fetch_payout_ratio info last_price =
     (let payout_ratio = fmul (safe_get info ''payoutRatio'' (Fin 0)) (Fin 100)
      in if feq payout_ratio (Fin 0)
         then (let dividend_yield = safe_get info ''dividendYield'' (Fin 0);
                   eps = safe_get info ''trailingEps'' (Fin 0)
               in if fgt dividend_yield (Fin 0) \<and> fgt eps (Fin 0)
                  then (let dps = fmul dividend_yield last_price
                        in bindE (py_div dps eps) (\<lambda>q. Inr (fmul q (Fin 100))))
                  else Inr payout_ratio)
         else Inr payout_ratio)"

text \<open>
  \<open>fetch_fundamental_data\<close> (lines 52 to 117). \<open>fetch_try\<close> is the body of the \<open>try\<close>:
  the four provider calls, the early return, and the assembly; an exception of any step
  becomes \<open>None\<close> in \<open>fetch_fundamental_data\<close> (lines 115 to 117), as does the early
  return.
\<close>

definition fetch_try :: "provider \<Rightarrow> error + resolved option" where
  "fetch_try stock =
     bindE (stock_info stock) (\<lambda>info.
     bindE (stock_financials stock) (\<lambda>financials.
     bindE (stock_balance_sheet stock) (\<lambda>balance_sheet.
     bindE (stock_history stock) (\<lambda>history.
       if frame_empty financials \<or> frame_empty balance_sheet then Inr None
       else
         bindE (fetch_shares info) (\<lambda>shares.
         bindE (fetch_last_price info history) (\<lambda>last_price.
         let revenue = get_from_financials financials [''Total Revenue'', ''Revenue''] 0;
             net_income =
               get_from_financials financials
                 [''Net Income'', ''Net Income Common Stockholders''] 0;
             equity = get_equity_from_balance_sheet balance_sheet
         in
         bindE (fetch_roe_annual net_income equity) (\<lambda>roe_annual.
         bindE (fetch_roe_5y financials balance_sheet) (\<lambda>roe_5y.
         let eps_growth_5y = fetch_eps_growth_5y info;
             sps_growth_5y = fmul (safe_get info ''revenueGrowth'' (Fin 0)) (Fin 100)
         in
         bindE (fetch_payout_ratio info last_price) (\<lambda>payout_ratio.
         let avg_pbv = safe_get info ''priceToBook'' (Fin 0);
             avg_per = safe_get info ''trailingPE'' (Fin 0);
             avg_psr = safe_get info ''priceToSalesTrailing12Months'' (Fin 0)
         in
         Inr (Some
           \<lparr>Shares = shares,
            Last_Price = last_price,
            Pendapatan = revenue,
            Profit = net_income,
            Equity = equity,
            ROE_Annual = roe_annual,
            ROE_5_Years = roe_5y,
            EPS_Growth_5_Years = eps_growth_5y,
            SPS_Growth_Annual = sps_growth_5y,
            SPS_Growth_5_Years = sps_growth_5y,
            DPR = payout_ratio,
            Average_PBV = avg_pbv,
            Average_PER = avg_per,
            Average_PSR = avg_psr\<rparr>))))))))))"

definition fetch_fundamental_data :: "provider \<Rightarrow> resolved option" where
  "fetch_fundamental_data stock =
     (case fetch_try stock of
        Inr r \<Rightarrow> r
      | Inl e \<Rightarrow> None)"

section \<open>Per-share metrics, projection and summary\<close>

text \<open>
  Lines 171 to 233 of the script, as functions of the values the form returns (the record
  \<open>resolved\<close>: the resolved values, or the operator's in manual mode).
\<close>

definition shares_outstanding :: "resolved \<Rightarrow> pyfloat" where
  "shares_outstanding d = fmul (Shares d) (Fin 1000000)"

definition per_share :: "pyfloat \<Rightarrow> pyfloat \<Rightarrow> error + pyfloat" where
  "per_share aggregate so = (if fgt so (Fin 0) then py_div aggregate so else Inr (Fin 0))"

definition book_value_per_share :: "resolved \<Rightarrow> error + pyfloat" where
  "book_value_per_share d = per_share (Equity d) (shares_outstanding d)"

definition eps_current :: "resolved \<Rightarrow> error + pyfloat" where
  "eps_current d = per_share (Profit d) (shares_outstanding d)"

definition sps_current :: "resolved \<Rightarrow> error + pyfloat" where
  "sps_current d = per_share (Pendapatan d) (shares_outstanding d)"

text \<open>Lines 177 to 179; the divisor is the literal 100.\<close>

definition roe :: "resolved \<Rightarrow> error + pyfloat" where
  "roe d = py_div (ROE_5_Years d) (Fin 100)"

definition eps_growth :: "resolved \<Rightarrow> error + pyfloat" where
  "eps_growth d = py_div (EPS_Growth_5_Years d) (Fin 100)"

definition sps_growth :: "resolved \<Rightarrow> error + pyfloat" where
  "sps_growth d = py_div (SPS_Growth_5_Years d) (Fin 100)"

text \<open>
  Lines 186 to 188: \<open>[m * ((1 + g) ** (i + 1)) for i in range(5)]\<close>. The base is a
  Python float, whose power raises on overflow, except that the return on equity is a
  numpy float64 when the form hands on the resolved value (automatic mode) and that value
  is the result of \<open>np.mean\<close>; \<open>numpy\<close> says which of the two the base is. The list is
  built in order, so the first power that raises ends it.
\<close>

definition power_of :: "bool \<Rightarrow> pyfloat \<Rightarrow> nat \<Rightarrow> error + pyfloat" where
  "power_of numpy x n = (if numpy then Inr (np_pow x n) else py_pow x n)"

fun compound_loop :: "bool \<Rightarrow> pyfloat \<Rightarrow> pyfloat \<Rightarrow> nat list \<Rightarrow> error + pyfloat list" where
  "compound_loop numpy m g [] = Inr []"
| "compound_loop numpy m g (i # rest) =
     bindE (power_of numpy (fadd (Fin 1) g) (i + 1)) (\<lambda>p.
     bindE (compound_loop numpy m g rest) (\<lambda>l. Inr (fmul m p # l)))"

definition compound :: "bool \<Rightarrow> pyfloat \<Rightarrow> pyfloat \<Rightarrow> error + pyfloat list" where
  "compound numpy m g = compound_loop numpy m g [0..<5]"

definition bv_fv :: "bool \<Rightarrow> resolved \<Rightarrow> error + pyfloat list" where
  "bv_fv numpy d =
     bindE (book_value_per_share d) (\<lambda>m. bindE (roe d) (\<lambda>g. compound numpy m g))"

definition eps_fv :: "resolved \<Rightarrow> error + pyfloat list" where
  "eps_fv d = bindE (eps_current d) (\<lambda>m. bindE (eps_growth d) (\<lambda>g. compound False m g))"

definition sps_fv :: "resolved \<Rightarrow> error + pyfloat list" where
  "sps_fv d = bindE (sps_current d) (\<lambda>m. bindE (sps_growth d) (\<lambda>g. compound False m g))"

text \<open>Lines 191 to 193.\<close>

definition price_pbv :: "bool \<Rightarrow> resolved \<Rightarrow> error + pyfloat list" where
  "price_pbv numpy d = bindE (bv_fv numpy d) (\<lambda>l. Inr (map (\<lambda>bv. fmul bv (Average_PBV d)) l))"

definition price_per :: "resolved \<Rightarrow> error + pyfloat list" where
  "price_per d = bindE (eps_fv d) (\<lambda>l. Inr (map (\<lambda>eps. fmul eps (Average_PER d)) l))"

definition price_psr :: "resolved \<Rightarrow> error + pyfloat list" where
  "price_psr d = bindE (sps_fv d) (\<lambda>l. Inr (map (\<lambda>sps. fmul sps (Average_PSR d)) l))"

text \<open>
  Lines 215 to 219: the last row of the table (\<open>iloc[-1]\<close>; the lists have five entries)
  and the mean of its three prices.
\<close>

definition future_price_final :: "pyfloat \<Rightarrow> pyfloat \<Rightarrow> pyfloat \<Rightarrow> pyfloat" where
  "future_price_final price_2029_pbv price_2029_per price_2029_psr =
     np_nanmean [price_2029_pbv, price_2029_per, price_2029_psr]"

text \<open>Lines 222 to 224.\<close>

definition gain_loss :: "pyfloat \<Rightarrow> pyfloat \<Rightarrow> error + pyfloat" where
  "gain_loss fpf last_price =
     (if fgt last_price (Fin 0)
      then bindE (py_div fpf last_price) (\<lambda>q. Inr (fmul (fsub q (Fin 1)) (Fin 100)))
      else Inr (Fin 0))"

definition margin_of_safety :: "pyfloat \<Rightarrow> pyfloat \<Rightarrow> error + pyfloat" where
  "margin_of_safety fpf last_price =
     (if fgt fpf (Fin 0)
      then bindE (py_div (fsub fpf last_price) fpf)
             (\<lambda>q. Inr (py_max (Fin 0) (fmul q (Fin 100))))
      else Inr (Fin 0))"

definition cagr :: "pyfloat \<Rightarrow> pyfloat \<Rightarrow> error + pyfloat" where
  "cagr fpf last_price =
     (if fgt last_price (Fin 0)
      then bindE (py_div fpf last_price) (\<lambda>q. Inr (fsub (fpow_frac q (1 / 5)) (Fin 1)))
      else Inr (Fin 0))"

text \<open>
  \<open>summary_data\<close> (lines 226 to 233): "Last Price (Saat Ini)", "Future Price (2029)",
  "G&L Potential (%)", "Annual Return (%)", "Margin of Safety (%)", "CAGR (%)".
\<close>

record summary =
  Last_Price_Now :: pyfloat
  Future_Price_2029 :: pyfloat
  GL_Potential :: pyfloat
  Annual_Return :: pyfloat
  Margin_of_Safety :: pyfloat
  CAGR :: pyfloat

definition summary_data :: "pyfloat \<Rightarrow> pyfloat \<Rightarrow> error + summary" where
  "summary_data fpf last_price =
     bindE (gain_loss fpf last_price) (\<lambda>gl.
     bindE (margin_of_safety fpf last_price) (\<lambda>mos.
     bindE (cagr fpf last_price) (\<lambda>c.
     bindE (py_div gl (Fin 5)) (\<lambda>annual.
       Inr \<lparr>Last_Price_Now = last_price,
            Future_Price_2029 = fpf,
            GL_Potential = gl,
            Annual_Return = annual,
            Margin_of_Safety = mos,
            CAGR = fmul c (Fin 100)\<rparr>))))"

text \<open>The script from the form's values to the summary.\<close>

definition summarize :: "bool \<Rightarrow> resolved \<Rightarrow> error + summary" where
  "summarize numpy d =
     bindE (price_pbv numpy d) (\<lambda>pbv.
     bindE (price_per d) (\<lambda>per.
     bindE (price_psr d) (\<lambda>psr.
       summary_data (future_price_final (last pbv) (last per) (last psr)) (Last_Price d))))"

section \<open>The specification's formulations\<close>

text \<open>
  The value a container holds for a key: the entry of a dict; for a Series the value of
  the label when the label occurs exactly once. A DataFrame holds none: what it gives for
  a key is a column, never a value.
\<close>

definition entry :: "container \<Rightarrow> string \<Rightarrow> pyval option" where
  "entry obj key =
     (case obj of
        Series rows \<Rightarrow>
          (case filter (\<lambda>r. fst r = key) rows of [r] \<Rightarrow> Some (snd r) | _ \<Rightarrow> None)
      | DataFrame idx columns \<Rightarrow> None
      | Dict m \<Rightarrow> m key)"

text \<open>
  The arithmetic mean of a non-empty list, stated without reference to the order of
  summation: the sum of the values over their number when all are finite; with special
  values, not-a-number when there is a not-a-number or infinities of both signs, else the
  infinity that occurs.
\<close>

definition fin_val :: "pyfloat \<Rightarrow> real" where
  "fin_val x = (case x of Fin r \<Rightarrow> r | _ \<Rightarrow> 0)"

definition sum_spec :: "pyfloat list \<Rightarrow> pyfloat" where
  "sum_spec xs =
     (if NaN \<in> set xs \<or> (PInf \<in> set xs \<and> NInf \<in> set xs) then NaN
      else if PInf \<in> set xs then PInf
      else if NInf \<in> set xs then NInf
      else Fin (sum_list (map fin_val xs)))"

definition mean_spec :: "pyfloat list \<Rightarrow> pyfloat" where
  "mean_spec xs =
     (case sum_spec xs of Fin t \<Rightarrow> Fin (t / real (length xs)) | special \<Rightarrow> special)"

text \<open>
  The trailing-average return on equity as the specification words it: the periods are
  the first five columns of the income statement (fewer if it has fewer); a period
  qualifies when its equity is not 0; the result is the mean over the qualifying periods
  of net income / equity * 100, or 0 when no period qualifies.
\<close>

definition net_income_at :: "frame \<Rightarrow> nat \<Rightarrow> pyfloat" where
  "net_income_at financials i = get_from_financials financials [''Net Income''] i"

definition equity_at :: "frame \<Rightarrow> nat \<Rightarrow> pyfloat" where
  "equity_at balance_sheet i = get_from_financials balance_sheet candidates i"

definition period_roes :: "frame \<Rightarrow> frame \<Rightarrow> pyfloat list" where
  "period_roes financials balance_sheet =
     map (\<lambda>i. fmul (fdiv (net_income_at financials i) (equity_at balance_sheet i)) (Fin 100))
       (filter (\<lambda>i. fne (equity_at balance_sheet i) (Fin 0)) [0..<min 5 (ncols financials)])"

definition trailing_roe_spec :: "frame \<Rightarrow> frame \<Rightarrow> pyfloat" where
  "trailing_roe_spec financials balance_sheet =
     (if period_roes financials balance_sheet = [] then Fin 0
      else mean_spec (period_roes financials balance_sheet))"

text \<open>
  The field resolver as the specification words it: the first alias, in declared order,
  that is a label of the table and has an entry at the offset; its entry there; 0 when
  there is no such alias.
\<close>

definition resolve_spec :: "frame \<Rightarrow> string list \<Rightarrow> nat \<Rightarrow> pyfloat" where
  "resolve_spec tbl aliases offset =
     (case find (\<lambda>k. k \<in> set (index tbl) \<and> offset < ncols tbl) aliases of
        None \<Rightarrow> Fin 0
      | Some k \<Rightarrow> cell tbl k offset)"

text \<open>\<open>x\<close> is a finite number within \<open>tol\<close> of \<open>c\<close>.\<close>

definition approx :: "pyfloat \<Rightarrow> real \<Rightarrow> real \<Rightarrow> bool" where
  "approx x c tol = (case x of Fin r \<Rightarrow> \<bar>r - c\<bar> \<le> tol | _ \<Rightarrow> False)"

text \<open>
  The powers \<open>x ** 1\<close> to \<open>x ** 5\<close> of a Python float: none of them overflows.
\<close>

definition pow_overflows :: "pyfloat \<Rightarrow> nat \<Rightarrow> bool" where
  "pow_overflows x n = (case x of Fin r \<Rightarrow> n \<noteq> 0 \<and> overflows (r ^ n) | _ \<Rightarrow> False)"

definition powers_in_range :: "pyfloat \<Rightarrow> bool" where
  "powers_in_range x = list_all (\<lambda>i. \<not> pow_overflows x (i + 1)) [0..<5]"

text \<open>The five projected values \<open>m * (1 + g) ** (i + 1)\<close>, when no power raises.\<close>

definition projected :: "pyfloat \<Rightarrow> pyfloat \<Rightarrow> pyfloat list" where
  "projected m g = map (\<lambda>i. fmul m (np_pow (fadd (Fin 1) g) (i + 1))) [0..<5]"

text \<open>A provider whose four calls return.\<close>

definition retrieved :: "container \<Rightarrow> frame \<Rightarrow> frame \<Rightarrow> frame \<Rightarrow> provider" where
  "retrieved info financials balance_sheet history =
     \<lparr>stock_info = Inr info, stock_financials = Inr financials,
      stock_balance_sheet = Inr balance_sheet, stock_history = Inr history\<rparr>"

text \<open>
  A profile value that cannot put a not-a-number or an infinity into a field: a null, or a
  value that does not convert or converts to a finite number.
\<close>

definition finite_value :: "pyval \<Rightarrow> bool" where
  "finite_value v =
     (\<not> pd_notna v \<or> (case py_float v of Inl e \<Rightarrow> True | Inr x \<Rightarrow> is_finite x))"

definition finite_key :: "container \<Rightarrow> string \<Rightarrow> bool" where
  "finite_key info key = (case entry info key of None \<Rightarrow> True | Some v \<Rightarrow> finite_value v)"

text \<open>
  The keys of the profile record that \<open>fetch_fundamental_data\<close> always reads. It reads
  the quarterly earnings growth only when the annual one resolves to 0, and the dividend
  yield and the trailing earnings per share only when the payout ratio resolves to 0.
\<close>

definition profile_keys :: "string list" where
  "profile_keys =
     [''sharesOutstanding'', ''currentPrice'', ''earningsGrowth'', ''revenueGrowth'',
      ''payoutRatio'', ''priceToBook'', ''trailingPE'', ''priceToSalesTrailing12Months'']"

definition finite_profile :: "container \<Rightarrow> bool" where
  "finite_profile info =
     (list_all (finite_key info) profile_keys \<and>
      (feq (safe_get info ''earningsGrowth'' (Fin 0)) (Fin 0) \<longrightarrow>
         finite_key info ''earningsQuarterlyGrowth'') \<and>
      (feq (safe_get info ''payoutRatio'' (Fin 0)) (Fin 0) \<longrightarrow>
         finite_key info ''dividendYield'' \<and> finite_key info ''trailingEps''))"

text \<open>
  The statement cells the assembler reads: the revenue, net income and equity at offset 0
  and, for each of the trailing periods, the net income and the equity of the period.
\<close>

definition cells_read :: "frame \<Rightarrow> frame \<Rightarrow> pyfloat list" where
  "cells_read financials balance_sheet =
     [resolve_spec financials [''Total Revenue'', ''Revenue''] 0,
      resolve_spec financials [''Net Income'', ''Net Income Common Stockholders''] 0,
      resolve_spec balance_sheet candidates 0] @
     concat (map (\<lambda>i. [resolve_spec financials [''Net Income''] i,
                        resolve_spec balance_sheet candidates i])
               [0..<min 5 (ncols financials)])"

text \<open>The closing price that line 65 reads, if it reads one, is finite.\<close>

definition close_finite :: "frame \<Rightarrow> bool" where
  "close_finite history = (case last_close history of Inr c \<Rightarrow> is_finite c | Inl e \<Rightarrow> True)"

definition finite_fields :: "resolved \<Rightarrow> bool" where
  "finite_fields d =
     (is_finite (Shares d) \<and> is_finite (Last_Price d) \<and> is_finite (Pendapatan d) \<and>
      is_finite (Profit d) \<and> is_finite (Equity d) \<and> is_finite (ROE_Annual d) \<and>
      is_finite (ROE_5_Years d) \<and> is_finite (EPS_Growth_5_Years d) \<and>
      is_finite (SPS_Growth_Annual d) \<and> is_finite (SPS_Growth_5_Years d) \<and>
      is_finite (DPR d) \<and> is_finite (Average_PBV d) \<and> is_finite (Average_PER d) \<and>
      is_finite (Average_PSR d))"

section \<open>Example inputs\<close>

definition empty_frame :: frame where
  "empty_frame = \<lparr>index = [], ncols = 0, cell = (\<lambda>k c. NaN)\<rparr>"

text \<open>Three periods: net incomes 10, 5, 5 (and revenues 40, 30, 20), equities 100, 0, 50.\<close>

definition ex_financials :: frame where
  "ex_financials =
     \<lparr>index = [''Total Revenue'', ''Net Income''],
      ncols = 3,
      cell = (\<lambda>k c. if k = ''Net Income'' then [Fin 10, Fin 5, Fin 5] ! c
                     else [Fin 40, Fin 30, Fin 20] ! c)\<rparr>"

definition ex_balance_sheet :: frame where
  "ex_balance_sheet =
     \<lparr>index = [''Total Stockholder Equity''],
      ncols = 3,
      cell = (\<lambda>k c. [Fin 100, Fin 0, Fin 50] ! c)\<rparr>"

text \<open>
  The same with net incomes 10, 5, 20: the returns on equity of the two qualifying
  periods are 10 and 40.
\<close>

definition uneven_financials :: frame where
  "uneven_financials =
     \<lparr>index = [''Total Revenue'', ''Net Income''],
      ncols = 3,
      cell = (\<lambda>k c. if k = ''Net Income'' then [Fin 10, Fin 5, Fin 20] ! c
                     else [Fin 40, Fin 30, Fin 20] ! c)\<rparr>"

text \<open>An income statement whose only period has no reported revenue (a not-a-number cell).\<close>

definition nan_financials :: frame where
  "nan_financials =
     \<lparr>index = [''Total Revenue'', ''Net Income''],
      ncols = 1,
      cell = (\<lambda>k c. if k = ''Net Income'' then Fin 10 else NaN)\<rparr>"

text \<open>
  The same with an unread row of not-a-number cells (\<open>Tax Provision\<close>) and a finite
  revenue.
\<close>

definition sparse_financials :: frame where
  "sparse_financials =
     \<lparr>index = [''Total Revenue'', ''Net Income'', ''Tax Provision''],
      ncols = 1,
      cell = (\<lambda>k c. if k = ''Net Income'' then Fin 10
                     else if k = ''Total Revenue'' then Fin 40 else NaN)\<rparr>"

text \<open>A price history of two days with closes 90 and 95, and one without the column.\<close>

definition ex_history :: frame where
  "ex_history =
     \<lparr>index = [''Open'', ''Close''],
      ncols = 2,
      cell = (\<lambda>k c. if k = ''Close'' then [Fin 90, Fin 95] ! c else [Fin 89, Fin 91] ! c)\<rparr>"

definition no_close_history :: frame where
  "no_close_history = \<lparr>index = [''Open''], ncols = 2, cell = (\<lambda>k c. [Fin 89, Fin 91] ! c)\<rparr>"

text \<open>
  A profile with a zero annual earnings growth and a quarterly one of 25 percent, a share
  count held as an \<open>int\<close>, a sales growth held as a string, a null and a string that is
  no number.
\<close>

definition ex_info :: container where
  "ex_info =
     Dict [''sharesOutstanding'' \<mapsto> PInt 10000000,
           ''currentPrice'' \<mapsto> PFloat (Fin 100),
           ''earningsGrowth'' \<mapsto> PFloat (Fin 0),
           ''earningsQuarterlyGrowth'' \<mapsto> PFloat (Fin (1 / 4)),
           ''revenueGrowth'' \<mapsto> PStr ''0.08'',
           ''trailingPE'' \<mapsto> PNone,
           ''priceToBook'' \<mapsto> PStr ''n/a'']"

text \<open>
  A profile with an annual earnings growth and a payout ratio, so that its quarterly
  earnings growth (the string \<open>nan\<close>) and its dividend yield (an infinity) are not read.
\<close>

definition skewed_info :: container where
  "skewed_info =
     Dict [''earningsGrowth'' \<mapsto> PFloat (Fin (1 / 10)),
           ''earningsQuarterlyGrowth'' \<mapsto> PStr ''nan'',
           ''payoutRatio'' \<mapsto> PFloat (Fin (3 / 10)),
           ''dividendYield'' \<mapsto> PFloat PInf]"




text \<open>The end-to-end scenario of the specification (section 8).\<close>

definition scenario :: resolved where
  "scenario =
     \<lparr>Shares = Fin 10,
      Last_Price = Fin 100,
      Pendapatan = Fin 5000000000,
      Profit = Fin 1000000000,
      Equity = Fin 8000000000,
      ROE_Annual = Fin (25 / 2),
      ROE_5_Years = Fin 12,
      EPS_Growth_5_Years = Fin 10,
      SPS_Growth_Annual = Fin 8,
      SPS_Growth_5_Years = Fin 8,
      DPR = Fin 0,
      Average_PBV = Fin (3 / 2),
      Average_PER = Fin 10,
      Average_PSR = Fin 2\<rparr>"

text \<open>The scenario with an earnings growth of \<open>10^80\<close> percent.\<close>

definition runaway :: resolved where
  "runaway = scenario\<lparr>EPS_Growth_5_Years := Fin (10 ^ 80)\<rparr>"

section \<open>Basic facts\<close>

lemma fgt_zero_neq: "fgt b (Fin 0) \<Longrightarrow> b \<noteq> Fin 0"
  by (auto simp: fgt_def)

lemma fne_zero_neq: "fne b (Fin 0) \<Longrightarrow> b \<noteq> Fin 0"
  by (auto simp: fne_def feq_def is_nan_def)

lemma is_nan_iff: "is_nan x \<longleftrightarrow> x = NaN"
  by (cases x) (simp_all add: is_nan_def)

lemma np_pow_Fin: "\<not> overflows (x ^ n) \<Longrightarrow> np_pow (Fin x) n = Fin (x ^ n)"
  by (cases n) simp_all

lemma py_pow_eq:
  "py_pow x n = (if pow_overflows x n then Inl OverflowError else Inr (np_pow x n))"
  by (cases x) (simp_all add: py_pow_def pow_overflows_def)

lemma pow_overflows_one [simp]: "\<not> pow_overflows (Fin 1) n"
  by (simp add: pow_overflows_def overflows_def overflow_bound_def)

lemma fmul_100_zero: "feq (fmul a (Fin 100)) (Fin 0) \<longleftrightarrow> feq a (Fin 0)"
  by (cases a) (auto simp: feq_def is_nan_def signed_inf_def)

lemma py_max_zero_nonneg: "fle (Fin 0) (py_max (Fin 0) x)"
  by (cases x) (auto simp: py_max_def fle_def fgt_def feq_def is_nan_def)


subsection \<open>Rows and column slices\<close>

lemma length_loc: "length (loc df k) = ncols df"
  by (simp add: loc_def)

lemma loc_Nil_iff: "loc df k = [] \<longleftrightarrow> ncols df = 0"
  by (simp add: loc_def)

lemma loc_nth: "i < ncols df \<Longrightarrow> loc df k ! i = cell df k i"
  by (simp add: loc_def)

lemma index_iloc_cols: "index (iloc_cols df i j) = index df"
  by (simp add: iloc_cols_def)

lemma loc_iloc_cols:
  "loc (iloc_cols bs i (Suc i)) k = (if i < ncols bs then [cell bs k i] else [])"
  by (auto simp: loc_def iloc_cols_def min_def)

text \<open>
  The equity of the one-column slice at \<open>i\<close> is the equity entry at offset \<open>i\<close> of the
  whole balance sheet.
\<close>

lemma equity_loop_column:
  "equity_loop (iloc_cols bs i (Suc i)) keys = get_from_financials bs keys i"
  by (induction keys)
    (auto simp: loc_iloc_cols index_iloc_cols length_loc loc_Nil_iff loc_nth)

lemma get_from_financials_resolve:
  "get_from_financials fin key_list idx = resolve_spec fin key_list idx"
  by (induction key_list) (auto simp: resolve_spec_def length_loc loc_Nil_iff loc_nth)

lemma equity_loop_resolve: "equity_loop bs keys = resolve_spec bs keys 0"
  by (induction keys) (auto simp: resolve_spec_def length_loc loc_Nil_iff loc_nth)

subsection \<open>No division of the program divides by zero\<close>

lemma per_share_eq:
  "per_share a so = Inr (if fgt so (Fin 0) then fdiv a so else Fin 0)"
  by (auto simp: per_share_def py_div_def dest: fgt_zero_neq)

lemma rate_eq: "py_div x (Fin 100) = Inr (fdiv x (Fin 100))"
  by (simp add: py_div_def)

lemma gain_loss_eq:
  "gain_loss fpf lp =
     Inr (if fgt lp (Fin 0) then fmul (fsub (fdiv fpf lp) (Fin 1)) (Fin 100) else Fin 0)"
  by (auto simp: gain_loss_def py_div_def bindE_def dest: fgt_zero_neq)

lemma margin_of_safety_eq:
  "margin_of_safety fpf lp =
     Inr (if fgt fpf (Fin 0) then py_max (Fin 0) (fmul (fdiv (fsub fpf lp) fpf) (Fin 100))
          else Fin 0)"
  by (auto simp: margin_of_safety_def py_div_def bindE_def dest: fgt_zero_neq)

lemma cagr_eq:
  "cagr fpf lp =
     Inr (if fgt lp (Fin 0) then fsub (fpow_frac (fdiv fpf lp) (1 / 5)) (Fin 1) else Fin 0)"
  by (auto simp: cagr_def py_div_def bindE_def dest: fgt_zero_neq)

lemma summary_data_eq:
  "summary_data fpf lp =
     Inr \<lparr>Last_Price_Now = lp,
          Future_Price_2029 = fpf,
          GL_Potential =
            (if fgt lp (Fin 0) then fmul (fsub (fdiv fpf lp) (Fin 1)) (Fin 100) else Fin 0),
          Annual_Return =
            fdiv (if fgt lp (Fin 0) then fmul (fsub (fdiv fpf lp) (Fin 1)) (Fin 100) else Fin 0)
              (Fin 5),
          Margin_of_Safety =
            (if fgt fpf (Fin 0) then py_max (Fin 0) (fmul (fdiv (fsub fpf lp) fpf) (Fin 100))
             else Fin 0),
          CAGR =
            fmul (if fgt lp (Fin 0) then fsub (fpow_frac (fdiv fpf lp) (1 / 5)) (Fin 1)
                  else Fin 0)
              (Fin 100)\<rparr>"
  by (simp add: summary_data_def gain_loss_eq margin_of_safety_eq cagr_eq bindE_def py_div_def)

subsection \<open>The mean\<close>

lemma sum_spec_fadd: "sum_spec (fadd a x # xs) = sum_spec (a # x # xs)"
  by (cases a; cases x) (auto simp: sum_spec_def fin_val_def)

lemma foldl_fadd_sum_spec: "foldl fadd a xs = sum_spec (a # xs)"
proof (induction xs arbitrary: a)
  case Nil
  show ?case by (cases a) (simp_all add: sum_spec_def fin_val_def)
next
  case (Cons x xs)
  show ?case by (simp add: Cons.IH sum_spec_fadd)
qed

lemma sum_spec_zero: "sum_spec (Fin 0 # xs) = sum_spec xs"
  by (auto simp: sum_spec_def fin_val_def)

lemma np_mean_spec: "xs \<noteq> [] \<Longrightarrow> np_mean xs = mean_spec xs"
  by (cases "sum_spec xs")
     (simp_all add: np_mean_def fsum_def foldl_fadd_sum_spec sum_spec_zero mean_spec_def
        signed_inf_def)

subsection \<open>The steps of the assembler\<close>

lemma fetch_shares_Inr: "\<exists>x. fetch_shares info = Inr x"
  by (simp add: fetch_shares_def Let_def py_div_def)

lemma fetch_roe_annual_eq:
  "fetch_roe_annual ni eq =
     Inr (if fne eq (Fin 0) then fmul (fdiv ni eq) (Fin 100) else Fin 0)"
  by (auto simp: fetch_roe_annual_def py_div_def bindE_def dest: fne_zero_neq)

lemma roes_loop_eq:
  "roes_loop fin bs is roes =
     Inr (roes @ map (\<lambda>i. fmul (fdiv (net_income_at fin i) (equity_at bs i)) (Fin 100))
                   (filter (\<lambda>i. fne (equity_at bs i) (Fin 0)) is))"
proof (induction "is" arbitrary: roes)
  case Nil
  show ?case by simp
next
  case (Cons i rest)
  have eq: "get_equity_from_balance_sheet (iloc_cols bs i (i + 1)) = equity_at bs i"
    by (simp add: get_equity_from_balance_sheet_def equity_at_def equity_loop_column)
  show ?case
  proof (cases "fne (equity_at bs i) (Fin 0)")
    case True
    then have "equity_at bs i \<noteq> Fin 0" by (rule fne_zero_neq)
    with True show ?thesis
      unfolding roes_loop.simps Let_def eq
      by (simp add: py_div_def bindE_def Cons.IH net_income_at_def
          del: get_from_financials.simps)
  next
    case False
    then show ?thesis
      unfolding roes_loop.simps Let_def eq
      by (simp add: Cons.IH del: get_from_financials.simps)
  qed
qed

lemma fetch_roe_5y_eq: "fetch_roe_5y fin bs = Inr (trailing_roe_spec fin bs)"
  by (simp add: fetch_roe_5y_def roes_loop_eq bindE_def trailing_roe_spec_def period_roes_def
      np_mean_spec)

lemma fetch_payout_ratio_Inr: "\<exists>x. fetch_payout_ratio info lp = Inr x"
  by (auto simp: fetch_payout_ratio_def Let_def py_div_def bindE_def dest: fgt_zero_neq)

lemma last_close_Inl_iff:
  "(\<exists>e. last_close h = Inl e) \<longleftrightarrow> \<not> frame_empty h \<and> ''Close'' \<notin> set (index h)"
  by (simp add: last_close_def)

lemma last_close_KeyError: "last_close h = Inl e \<Longrightarrow> e = KeyError"
  by (simp add: last_close_def split: if_splits)

text \<open>
  With four provider calls that return, two non-empty tables and a default for the current
  price, the assembler returns a record, whose fields are these.
\<close>

lemma fetch_try_retrieved:
  assumes "\<not> frame_empty fin" "\<not> frame_empty bs" "last_close h = Inr c"
  shows "\<exists>s pr.
     fetch_shares info = Inr s \<and>
     fetch_payout_ratio info (safe_get info ''currentPrice'' c) = Inr pr \<and>
     fetch_try (retrieved info fin bs h) = Inr (Some
          \<lparr>Shares = s,
           Last_Price = safe_get info ''currentPrice'' c,
           Pendapatan = resolve_spec fin [''Total Revenue'', ''Revenue''] 0,
           Profit = resolve_spec fin [''Net Income'', ''Net Income Common Stockholders''] 0,
           Equity = resolve_spec bs candidates 0,
           ROE_Annual =
             (if fne (resolve_spec bs candidates 0) (Fin 0)
              then fmul (fdiv (resolve_spec fin
                                 [''Net Income'', ''Net Income Common Stockholders''] 0)
                           (resolve_spec bs candidates 0)) (Fin 100)
              else Fin 0),
           ROE_5_Years = trailing_roe_spec fin bs,
           EPS_Growth_5_Years = fetch_eps_growth_5y info,
           SPS_Growth_Annual = fmul (safe_get info ''revenueGrowth'' (Fin 0)) (Fin 100),
           SPS_Growth_5_Years = fmul (safe_get info ''revenueGrowth'' (Fin 0)) (Fin 100),
           DPR = pr,
           Average_PBV = safe_get info ''priceToBook'' (Fin 0),
           Average_PER = safe_get info ''trailingPE'' (Fin 0),
           Average_PSR = safe_get info ''priceToSalesTrailing12Months'' (Fin 0)\<rparr>)"
proof -
  obtain s where s: "fetch_shares info = Inr s"
    using fetch_shares_Inr by blast
  obtain pr where pr: "fetch_payout_ratio info (safe_get info ''currentPrice'' c) = Inr pr"
    using fetch_payout_ratio_Inr by blast
  show ?thesis
    using assms(1,2)
    by (simp add: fetch_try_def retrieved_def bindE_def Let_def s fetch_last_price_def assms(3)
        fetch_roe_annual_eq fetch_roe_5y_eq pr get_from_financials_resolve
        get_equity_from_balance_sheet_def equity_loop_resolve
        del: get_from_financials.simps)
qed

lemma fetch_try_no_close:
  assumes "\<not> frame_empty fin" "\<not> frame_empty bs" "last_close h = Inl e"
  shows "fetch_try (retrieved info fin bs h) = Inl e"
proof -
  obtain s where s: "fetch_shares info = Inr s"
    using fetch_shares_Inr by blast
  show ?thesis
    using assms(1,2)
    by (simp add: fetch_try_def retrieved_def bindE_def s fetch_last_price_def assms(3))
qed

lemma fetch_try_empty:
  "frame_empty fin \<or> frame_empty bs \<Longrightarrow> fetch_try (retrieved info fin bs h) = Inr None"
  by (auto simp: fetch_try_def retrieved_def bindE_def)

lemma fetch_none_iff:
  "fetch_fundamental_data (retrieved info fin bs h) = None \<longleftrightarrow>
     frame_empty fin \<or> frame_empty bs \<or> (\<not> frame_empty h \<and> ''Close'' \<notin> set (index h))"
proof (cases "frame_empty fin \<or> frame_empty bs")
  case True
  then show ?thesis
    by (auto simp: fetch_fundamental_data_def fetch_try_empty)
next
  case False
  show ?thesis
  proof (cases "last_close h")
    case (Inl e)
    with False have "fetch_try (retrieved info fin bs h) = Inl e"
      by (simp add: fetch_try_no_close)
    with False Inl last_close_Inl_iff [of h] show ?thesis
      by (auto simp: fetch_fundamental_data_def)
  next
    case (Inr c)
    with False obtain d where "fetch_try (retrieved info fin bs h) = Inr (Some d)"
      using fetch_try_retrieved [of fin bs h c info] by blast
    with False Inr last_close_Inl_iff [of h] show ?thesis
      by (auto simp: fetch_fundamental_data_def)
  qed
qed

lemma fetch_provider_error:
  "stock_info stock = Inl e \<or> stock_financials stock = Inl e \<or>
   stock_balance_sheet stock = Inl e \<or> stock_history stock = Inl e \<Longrightarrow>
   fetch_fundamental_data stock = None"
  by (auto simp: fetch_fundamental_data_def fetch_try_def bindE_def split: sum.splits)

section \<open>The numeric coercion utility\<close>

lemmas parse_defs =
  float_of_string_def strip_def is_space_def sign_split_def lower_def decimal_def mantissa_def
  digitpart_def is_digit_def digit_val_def is_exp_mark_def overflows_def overflow_bound_def
  underflows_def signed_inf_def Let_def

lemma pd_notna_iff: "pd_notna v \<longleftrightarrow> v \<noteq> PNone \<and> v \<noteq> PFloat NaN"
  by (cases v) (auto simp: pd_notna_def is_nan_iff)

lemma coerce_or_default_eq:
  "coerce_or_default v dflt =
     (if v = PNone \<or> v = PFloat NaN then Inr dflt else py_float v)"
  by (auto simp: coerce_or_default_def pd_notna_iff)

lemma filter_key_Nil: "key \<notin> fst ` set rows \<Longrightarrow> filter (\<lambda>r. fst r = key) rows = []"
  by (induction rows) auto

lemma filter_key_Cons: "key \<in> fst ` set rows \<Longrightarrow> filter (\<lambda>r. fst r = key) rows \<noteq> []"
  by (induction rows) auto

lemma safe_get_cases:
  "safe_get obj key dflt =
     (case entry obj key of
        None \<Rightarrow> dflt
      | Some v \<Rightarrow>
          if v = PNone \<or> v = PFloat NaN then dflt
          else (case py_float v of Inr x \<Rightarrow> x | Inl e \<Rightarrow> dflt))"
proof (cases obj)
  case (Series rows)
  show ?thesis
  proof (cases "key \<in> fst ` set rows")
    case False
    with Series show ?thesis
      by (simp add: safe_get_def safe_get_try_def entry_def filter_key_Nil)
  next
    case True
    then have "filter (\<lambda>r. fst r = key) rows \<noteq> []"
      by (rule filter_key_Cons)
    with True Series show ?thesis
      by (cases "filter (\<lambda>r. fst r = key) rows" rule: list.exhaust;
          cases "tl (filter (\<lambda>r. fst r = key) rows)")
         (auto simp: safe_get_def safe_get_try_def entry_def coerce_or_default_eq
          split: sum.splits)
  qed
next
  case (DataFrame idx columns)
  then show ?thesis
    by (simp add: safe_get_def safe_get_try_def entry_def)
next
  case (Dict m)
  then show ?thesis
    by (cases "m key")
       (auto simp: safe_get_def safe_get_try_def entry_def coerce_or_default_eq py_float_def
          Let_def split: sum.splits)
qed




section \<open>The field resolver\<close>

text \<open>
  Claim C7, as stated, asks that the entry returned by the field resolver is coerced to a
  well-formed number. \<open>get_from_financials\<close> returns the cell as it is stored: the
  revenue of a table whose revenue cell is not-a-number is not-a-number.
\<close>

theorem field_resolver_counterexample:
  "get_from_financials nan_financials [''Total Revenue'', ''Revenue''] 0 = NaN \<and>
   \<not> is_finite (get_from_financials nan_financials [''Total Revenue'', ''Revenue''] 0)"
  by (simp add: nan_financials_def loc_def is_finite_def)

text \<open>
  Claim C7, amended. For every table, alias list and offset, the field resolver returns
  the entry, as stored and without coercion, at the offset of the first alias in declared
  order that is a label of the table and has an entry at the offset; the equity resolver
  is the same with its own alias list at offset 0. The result is 0 when no alias is a
  label of the table, and when the table has no entry at the offset.
\<close>

theorem field_resolver_first_match:
  "get_from_financials tbl aliases offset = resolve_spec tbl aliases offset \<and>
   get_equity_from_balance_sheet tbl = resolve_spec tbl candidates 0 \<and>
   ((\<forall>k \<in> set aliases. k \<notin> set (index tbl)) \<longrightarrow>
      get_from_financials tbl aliases offset = Fin 0) \<and>
   (ncols tbl \<le> offset \<longrightarrow> get_from_financials tbl aliases offset = Fin 0)"
proof -
  have none: "find P xs = None" if "\<forall>x \<in> set xs. \<not> P x" for P :: "string \<Rightarrow> bool" and xs
    using that by (simp add: find_None_iff)
  have a: "resolve_spec tbl aliases offset = Fin 0"
    if "\<forall>k \<in> set aliases. k \<notin> set (index tbl)"
    using that by (simp add: resolve_spec_def none)
  have b: "resolve_spec tbl aliases offset = Fin 0" if "ncols tbl \<le> offset"
    using that by (simp add: resolve_spec_def none)
  show ?thesis
    using a b
    by (simp add: get_from_financials_resolve get_equity_from_balance_sheet_def
        equity_loop_resolve)
qed

theorem field_resolver_first_match_witness:
  "get_from_financials ex_financials [''Revenue'', ''Net Income'', ''Total Revenue''] 1 = Fin 5 \<and>
   get_equity_from_balance_sheet ex_balance_sheet = Fin 100 \<and>
   get_from_financials ex_financials [''Revenue'', ''Sales''] 1 = Fin 0 \<and>
   get_from_financials ex_financials [''Net Income''] 3 = Fin 0"
  using
    field_resolver_first_match
      [of ex_financials "[''Revenue'', ''Net Income'', ''Total Revenue'']" 1]
    field_resolver_first_match [of ex_balance_sheet "[]" 0]
    field_resolver_first_match [of ex_financials "[''Revenue'', ''Sales'']" 1]
    field_resolver_first_match [of ex_financials "[''Net Income'']" 3]
  by (simp add: resolve_spec_def ex_financials_def ex_balance_sheet_def candidates_def)

section \<open>The fundamentals assembler: results\<close>

text \<open>
  Claim C4, as stated, asks for a record whenever at least one statement table is not
  empty. With a non-empty income statement and an empty balance sheet the assembler
  returns \<open>None\<close>.
\<close>

theorem unavailable_counterexample:
  "\<not> frame_empty ex_financials \<and> frame_empty empty_frame \<and>
   fetch_fundamental_data (retrieved ex_info ex_financials empty_frame ex_history) = None"
  by (simp add: fetch_fundamental_data_def fetch_try_def retrieved_def bindE_def frame_empty_def
      ex_financials_def empty_frame_def)

text \<open>
  Claim C4, amended. For statement tables with unique labels and float64 cells: the
  assembler returns \<open>None\<close> when a call to the provider raises; when the four calls
  return, it returns \<open>None\<close> exactly when at least one of the two statement tables is
  empty or the price history is non-empty and has no column \<open>Close\<close> (the only step of
  the assembly that raises, a KeyError); otherwise, that is with two non-empty tables and
  a price history that is empty or has the column, it returns a record.
\<close>

theorem unavailable_iff_a_table_empty:
  "(fetch_fundamental_data (retrieved info fin bs h) = None \<longleftrightarrow>
      frame_empty fin \<or> frame_empty bs \<or> (\<not> frame_empty h \<and> ''Close'' \<notin> set (index h))) \<and>
   (stock_info stock = Inl e \<or> stock_financials stock = Inl e \<or>
    stock_balance_sheet stock = Inl e \<or> stock_history stock = Inl e \<longrightarrow>
      fetch_fundamental_data stock = None) \<and>
   (\<forall>e'. fetch_try (retrieved info fin bs h) = Inl e' \<longrightarrow>
      e' = KeyError \<and> \<not> frame_empty h \<and> ''Close'' \<notin> set (index h)) \<and>
   (\<not> frame_empty fin \<and> \<not> frame_empty bs \<and> (frame_empty h \<or> ''Close'' \<in> set (index h)) \<longrightarrow>
      (\<exists>d. fetch_fundamental_data (retrieved info fin bs h) = Some d))"
proof -
  have raise: "e' = KeyError \<and> \<not> frame_empty h \<and> ''Close'' \<notin> set (index h)"
    if r: "fetch_try (retrieved info fin bs h) = Inl e'" for e'
  proof -
    have ne: "\<not> (frame_empty fin \<or> frame_empty bs)"
      using r fetch_try_empty [of fin bs info h] by auto
    show ?thesis
    proof (cases "last_close h")
      case (Inl e0)
      with ne have "fetch_try (retrieved info fin bs h) = Inl e0"
        by (simp add: fetch_try_no_close)
      with r Inl last_close_KeyError [of h e0] last_close_Inl_iff [of h] show ?thesis
        by auto
    next
      case (Inr c)
      with ne fetch_try_retrieved [of fin bs h c info] r show ?thesis
        by auto
    qed
  qed
  have some: "\<exists>d. fetch_fundamental_data (retrieved info fin bs h) = Some d"
    if "\<not> frame_empty fin \<and> \<not> frame_empty bs \<and> (frame_empty h \<or> ''Close'' \<in> set (index h))"
    using that fetch_none_iff [of info fin bs h] by auto
  show ?thesis
    using raise some fetch_none_iff [of info fin bs h] fetch_provider_error [of stock e]
    by blast
qed

text \<open>
  A record with the example tables and history; \<open>None\<close> with an empty income statement,
  with a history that lacks the column \<open>Close\<close>, and when the call for the balance sheet
  raises.
\<close>

theorem unavailable_iff_a_table_empty_witness:
  "fetch_fundamental_data (retrieved ex_info ex_financials ex_balance_sheet ex_history) \<noteq> None \<and>
   fetch_fundamental_data (retrieved ex_info empty_frame ex_balance_sheet ex_history) = None \<and>
   fetch_fundamental_data (retrieved ex_info ex_financials ex_balance_sheet no_close_history) =
     None \<and>
   fetch_fundamental_data
     ((retrieved ex_info ex_financials ex_balance_sheet ex_history)
        \<lparr>stock_balance_sheet := Inl ProviderError\<rparr>) = None"
  using
    unavailable_iff_a_table_empty
      [of ex_info ex_financials ex_balance_sheet ex_history
          "(retrieved ex_info ex_financials ex_balance_sheet ex_history)
             \<lparr>stock_balance_sheet := Inl ProviderError\<rparr>" ProviderError]
    unavailable_iff_a_table_empty
      [of ex_info empty_frame ex_balance_sheet ex_history
          "retrieved ex_info empty_frame ex_balance_sheet ex_history" ProviderError]
    unavailable_iff_a_table_empty
      [of ex_info ex_financials ex_balance_sheet no_close_history
          "retrieved ex_info ex_financials ex_balance_sheet ex_history" ProviderError]
  by (simp add: frame_empty_def ex_financials_def ex_balance_sheet_def empty_frame_def
      ex_history_def no_close_history_def retrieved_def)

text \<open>
  Claim C6. The trailing-average return on equity runs over the first
  \<open>min(5, number of income-statement columns)\<close> periods; for each it takes the net
  income at that offset and the equity of the matching balance-sheet column, includes
  net income / equity * 100 only when the equity is not 0, and returns the arithmetic
  mean of the included values, or 0 when there is none: the loop of the source computes
  \<open>trailing_roe_spec\<close> and never raises, and for finite included values the result is
  their sum over their number. Equities 100, 0, 50 with net incomes 10, 5, 5 give exactly
  10 (not 6.67), and with net incomes 10, 5, 20 exactly 25.
\<close>

theorem trailing_roe_mean_of_qualifying:
  "fetch_roe_5y financials balance_sheet = Inr (trailing_roe_spec financials balance_sheet) \<and>
   (\<forall>i. get_equity_from_balance_sheet (iloc_cols balance_sheet i (i + 1)) =
         equity_at balance_sheet i) \<and>
   (period_roes financials balance_sheet \<noteq> [] \<and>
    list_all is_finite (period_roes financials balance_sheet) \<longrightarrow>
      fetch_roe_5y financials balance_sheet =
        Inr (Fin (sum_list (map fin_val (period_roes financials balance_sheet)) /
                  real (length (period_roes financials balance_sheet))))) \<and>
   fetch_roe_5y ex_financials ex_balance_sheet = Inr (Fin 10) \<and>
   fetch_roe_5y uneven_financials ex_balance_sheet = Inr (Fin 25)"
proof -
  have upt3: "[0..<3] = [0, 1, 2]"
    by (simp add: upt_rec)
  have finite_mean: "mean_spec xs = Fin (sum_list (map fin_val xs) / real (length xs))"
    if "list_all is_finite xs" for xs
  proof -
    from that have "NaN \<notin> set xs" "PInf \<notin> set xs" "NInf \<notin> set xs"
      by (auto simp: list_all_iff is_finite_def)
    then show ?thesis
      by (simp add: mean_spec_def sum_spec_def)
  qed
  have e1: "period_roes ex_financials ex_balance_sheet = [Fin 10, Fin 10]"
    by (simp add: period_roes_def ex_financials_def ex_balance_sheet_def upt3 equity_at_def
        net_income_at_def candidates_def loc_def fne_def feq_def is_nan_def)
  have e2: "period_roes uneven_financials ex_balance_sheet = [Fin 10, Fin 40]"
    by (simp add: period_roes_def uneven_financials_def ex_balance_sheet_def upt3 equity_at_def
        net_income_at_def candidates_def loc_def fne_def feq_def is_nan_def)
  have "trailing_roe_spec ex_financials ex_balance_sheet = Fin 10"
    "trailing_roe_spec uneven_financials ex_balance_sheet = Fin 25"
    by (simp_all add: trailing_roe_spec_def e1 e2 finite_mean is_finite_def fin_val_def)
  then show ?thesis
    using finite_mean [of "period_roes financials balance_sheet"]
    by (simp add: fetch_roe_5y_eq get_equity_from_balance_sheet_def equity_at_def
        equity_loop_column trailing_roe_spec_def)
qed

text \<open>
  Net incomes 10, 5, 20 over equities 100, 0, 50: the second period is left out, the
  included values 10 and 40 are finite, and the result is (10 + 40) / 2.
\<close>

theorem trailing_roe_mean_of_qualifying_witness:
  "period_roes uneven_financials ex_balance_sheet = [Fin 10, Fin 40] \<and>
   fetch_roe_5y uneven_financials ex_balance_sheet = Inr (Fin ((10 + 40) / 2))"
proof -
  have upt3: "[0..<3] = [0, 1, 2]"
    by (simp add: upt_rec)
  have e2: "period_roes uneven_financials ex_balance_sheet = [Fin 10, Fin 40]"
    by (simp add: period_roes_def uneven_financials_def ex_balance_sheet_def upt3 equity_at_def
        net_income_at_def candidates_def loc_def fne_def feq_def is_nan_def)
  show ?thesis
    using trailing_roe_mean_of_qualifying [of uneven_financials ex_balance_sheet,
        THEN conjunct2, THEN conjunct2, THEN conjunct1]
    by (simp add: e2 is_finite_def fin_val_def)
qed

text \<open>
  Claim C10. The earnings-growth field of the assembled record is the profile's annual
  earnings growth times 100 when that figure, as resolved by \<open>safe_get\<close>, is not 0, and
  the quarterly earnings growth times 100 when the annual figure resolves to 0: a resolved
  0 always takes the quarterly figure.
\<close>

theorem earnings_growth_fallback:
  "fetch_fundamental_data (retrieved info fin bs hist) = Some d \<longrightarrow>
   EPS_Growth_5_Years d =
     (if feq (safe_get info ''earningsGrowth'' (Fin 0)) (Fin 0)
      then fmul (safe_get info ''earningsQuarterlyGrowth'' (Fin 0)) (Fin 100)
      else fmul (safe_get info ''earningsGrowth'' (Fin 0)) (Fin 100))"
proof
  assume a: "fetch_fundamental_data (retrieved info fin bs hist) = Some d"
  then have ne: "\<not> frame_empty fin" "\<not> frame_empty bs"
    and "\<not> (\<not> frame_empty hist \<and> ''Close'' \<notin> set (index hist))"
    using fetch_none_iff [of info fin bs hist] by auto
  then obtain c where c: "last_close hist = Inr c"
    using last_close_Inl_iff [of hist] by (cases "last_close hist") auto
  from fetch_try_retrieved [OF ne c, of info] a
  have "EPS_Growth_5_Years d = fetch_eps_growth_5y info"
    by (auto simp: fetch_fundamental_data_def)
  then show "EPS_Growth_5_Years d =
     (if feq (safe_get info ''earningsGrowth'' (Fin 0)) (Fin 0)
      then fmul (safe_get info ''earningsQuarterlyGrowth'' (Fin 0)) (Fin 100)
      else fmul (safe_get info ''earningsGrowth'' (Fin 0)) (Fin 100))"
    by (simp add: fetch_eps_growth_5y_def Let_def fmul_100_zero)
qed

text \<open>
  The example profile reports an annual growth of 0 and a quarterly growth of 0.25: the
  field is 25.
\<close>

theorem earnings_growth_fallback_witness:
  "map_option EPS_Growth_5_Years
     (fetch_fundamental_data (retrieved ex_info ex_financials ex_balance_sheet ex_history)) =
   Some (Fin 25)"
proof -
  have "fetch_fundamental_data (retrieved ex_info ex_financials ex_balance_sheet ex_history) \<noteq>
      None"
    by (simp add: fetch_none_iff frame_empty_def ex_financials_def ex_balance_sheet_def
        ex_history_def)
  then obtain d where
    d: "fetch_fundamental_data (retrieved ex_info ex_financials ex_balance_sheet ex_history) =
      Some d"
    by blast
  have "EPS_Growth_5_Years d = Fin 25"
    using earnings_growth_fallback [of ex_info ex_financials ex_balance_sheet ex_history d] d
    by (simp add: safe_get_def safe_get_try_def ex_info_def coerce_or_default_def pd_notna_def
        py_float_def feq_def is_nan_def)
  with d show ?thesis
    by simp
qed

section \<open>The summary calculator\<close>



text \<open>
  Claim C5. For every blended future price and current price (the special values
  included) the margin of safety is computed without raising and is greater than or equal
  to 0. It is \<open>max(0, (blended future price - current price) / blended future price * 100)\<close>
  when the blended future price is greater than 0, and 0 when it is less than or equal to
  0. On finite numbers the maximum is the maximum of the reals, so a current price above
  the blended future price gives 0.
\<close>

theorem margin_of_safety_never_negative:
  "(\<exists>m. margin_of_safety fpf lp = Inr m \<and> fle (Fin 0) m) \<and>
   (fgt fpf (Fin 0) \<longrightarrow>
      margin_of_safety fpf lp =
        Inr (py_max (Fin 0) (fmul (fdiv (fsub fpf lp) fpf) (Fin 100)))) \<and>
   (fle fpf (Fin 0) \<longrightarrow> margin_of_safety fpf lp = Inr (Fin 0)) \<and>
   (0 < f \<longrightarrow> margin_of_safety (Fin f) (Fin l) = Inr (Fin (max 0 ((f - l) / f * 100))))"
proof -
  have a: "\<exists>m. margin_of_safety fpf lp = Inr m \<and> fle (Fin 0) m"
    by (simp add: margin_of_safety_eq py_max_zero_nonneg) (simp add: fle_def feq_def is_nan_def)
  have b: "fle fpf (Fin 0) \<Longrightarrow> \<not> fgt fpf (Fin 0)"
    by (cases fpf) (auto simp: fle_def fgt_def feq_def)
  have c: "0 < f \<Longrightarrow> margin_of_safety (Fin f) (Fin l) = Inr (Fin (max 0 ((f - l) / f * 100)))"
    by (simp add: margin_of_safety_eq fgt_def fsub_def py_max_def max_def)
  show ?thesis
    using a b c by (simp add: margin_of_safety_eq)
qed

theorem margin_of_safety_never_negative_witness:
  "margin_of_safety (Fin 80) (Fin 100) = Inr (Fin 0) \<and>
   margin_of_safety (Fin 200) (Fin 100) = Inr (Fin 50) \<and>
   margin_of_safety (Fin (- 3)) (Fin 100) = Inr (Fin 0) \<and>
   fle (Fin 0) (Fin 50)"
  using margin_of_safety_never_negative [of "Fin 80" "Fin 100" 80 100]
    margin_of_safety_never_negative [of "Fin 200" "Fin 100" 200 100]
    margin_of_safety_never_negative [of "Fin (- 3)" "Fin 100" 1 1]
  by (simp add: fle_def fgt_def feq_def is_nan_def py_max_def fsub_def)

text \<open>
  Claim C2, as stated, asks for a margin of safety of 0 whenever the current price is 0.
  With a blended future price of 50 and a current price of 0 the margin of safety is 100.
\<close>

theorem zero_price_counterexample:
  "margin_of_safety (Fin 50) (Fin 0) = Inr (Fin 100)"
  by (simp add: margin_of_safety_eq fgt_def fsub_def py_max_def)

text \<open>
  Claim C2, amended. When the current price is 0, for every blended future price the
  summary is computed without raising, and gain/loss, annual return and compound annual
  growth rate are 0; the margin of safety is 100 when the blended future price is a finite
  number greater than 0, and 0 otherwise.
\<close>

theorem zero_price_summary:
  "gain_loss fpf (Fin 0) = Inr (Fin 0) \<and>
   cagr fpf (Fin 0) = Inr (Fin 0) \<and>
   margin_of_safety fpf (Fin 0) =
     Inr (if is_finite fpf \<and> fgt fpf (Fin 0) then Fin 100 else Fin 0) \<and>
   (\<exists>s. summary_data fpf (Fin 0) = Inr s \<and> GL_Potential s = Fin 0 \<and>
        Annual_Return s = Fin 0 \<and> CAGR s = Fin 0)"
  by (cases fpf)
     (simp_all add: gain_loss_eq cagr_eq margin_of_safety_eq summary_data_eq fgt_def fsub_def
        py_max_def is_finite_def)

theorem zero_price_summary_witness:
  "margin_of_safety (Fin 80) (Fin 0) = Inr (Fin 100) \<and>
   margin_of_safety (Fin (- 50)) (Fin 0) = Inr (Fin 0) \<and>
   margin_of_safety PInf (Fin 0) = Inr (Fin 0) \<and>
   gain_loss (Fin 80) (Fin 0) = Inr (Fin 0) \<and> cagr (Fin 80) (Fin 0) = Inr (Fin 0)"
  using zero_price_summary [of "Fin 80"] zero_price_summary [of "Fin (- 50)"]
    zero_price_summary [of PInf]
  by (simp add: is_finite_def fgt_def)




section \<open>Finite inputs give finite fields\<close>

lemma is_finite_iff: "is_finite x \<longleftrightarrow> (\<exists>r. x = Fin r)"
  by (cases x) (simp_all add: is_finite_def)

lemma is_finite_Fin: "is_finite (Fin r)"
  by (simp add: is_finite_def)

lemma is_finite_fmul: "is_finite a \<Longrightarrow> is_finite b \<Longrightarrow> is_finite (fmul a b)"
  by (auto simp: is_finite_iff)

lemma is_finite_fdiv: "is_finite a \<Longrightarrow> is_finite b \<Longrightarrow> is_finite (fdiv a b)"
  by (auto simp: is_finite_iff)

lemma mean_spec_finite:
  assumes "list_all is_finite xs"
  shows "mean_spec xs = Fin (sum_list (map fin_val xs) / real (length xs))"
proof -
  from assms have "NaN \<notin> set xs" "PInf \<notin> set xs" "NInf \<notin> set xs"
    by (auto simp: list_all_iff is_finite_def)
  then show ?thesis
    by (simp add: mean_spec_def sum_spec_def)
qed

lemma is_finite_safe_get_key:
  assumes "finite_key info key" "is_finite dflt"
  shows "is_finite (safe_get info key dflt)"
proof (cases "entry info key")
  case None
  with assms(2) show ?thesis
    by (simp add: safe_get_cases)
next
  case (Some v)
  with assms(1) have "finite_value v"
    by (simp add: finite_key_def)
  with Some assms(2) show ?thesis
    by (auto simp: safe_get_cases finite_value_def pd_notna_iff split: sum.splits)
qed

lemma is_finite_safe_get:
  assumes "finite_profile info" "key \<in> set profile_keys" "is_finite dflt"
  shows "is_finite (safe_get info key dflt)"
  using assms by (intro is_finite_safe_get_key) (auto simp: finite_profile_def list_all_iff)

lemma cells_read_finite:
  assumes "list_all is_finite (cells_read fin bs)"
  shows "is_finite (resolve_spec fin [''Total Revenue'', ''Revenue''] 0)"
    and "is_finite (resolve_spec fin [''Net Income'', ''Net Income Common Stockholders''] 0)"
    and "is_finite (resolve_spec bs candidates 0)"
    and "i < min 5 (ncols fin) \<Longrightarrow> is_finite (net_income_at fin i) \<and> is_finite (equity_at bs i)"
  using assms
  by (auto simp: cells_read_def list_all_iff net_income_at_def equity_at_def
      get_from_financials_resolve simp del: get_from_financials.simps)

lemma is_finite_trailing_roe_spec:
  assumes "list_all is_finite (cells_read fin bs)"
  shows "is_finite (trailing_roe_spec fin bs)"
proof -
  have "list_all is_finite (period_roes fin bs)"
    using cells_read_finite(4) [OF assms]
    by (auto simp: period_roes_def list_all_iff is_finite_fmul is_finite_fdiv is_finite_Fin)
  then show ?thesis
    by (simp add: trailing_roe_spec_def mean_spec_finite is_finite_Fin)
qed

lemma is_finite_fetch_shares:
  assumes "finite_profile info" "fetch_shares info = Inr s"
  shows "is_finite s"
proof -
  have "is_finite (safe_get info ''sharesOutstanding'' (Fin 0))"
    using assms(1) by (intro is_finite_safe_get) (simp_all add: profile_keys_def is_finite_Fin)
  with assms(2) show ?thesis
    by (auto simp: fetch_shares_def Let_def py_div_def is_finite_iff split: if_splits)
qed

lemma is_finite_fetch_eps_growth_5y:
  assumes "finite_profile info"
  shows "is_finite (fetch_eps_growth_5y info)"
proof -
  have a: "is_finite (safe_get info ''earningsGrowth'' (Fin 0))"
    using assms by (intro is_finite_safe_get) (simp_all add: profile_keys_def is_finite_Fin)
  show ?thesis
  proof (cases "feq (safe_get info ''earningsGrowth'' (Fin 0)) (Fin 0)")
    case True
    with assms have "finite_key info ''earningsQuarterlyGrowth''"
      by (simp add: finite_profile_def)
    then have "is_finite (safe_get info ''earningsQuarterlyGrowth'' (Fin 0))"
      by (intro is_finite_safe_get_key) (simp_all add: is_finite_Fin)
    with True show ?thesis
      by (simp add: fetch_eps_growth_5y_def Let_def fmul_100_zero is_finite_fmul is_finite_Fin)
  next
    case False
    with a show ?thesis
      by (simp add: fetch_eps_growth_5y_def Let_def fmul_100_zero is_finite_fmul is_finite_Fin)
  qed
qed

lemma is_finite_fetch_payout_ratio:
  assumes "finite_profile info" "is_finite lp" "fetch_payout_ratio info lp = Inr pr"
  shows "is_finite pr"
proof -
  have a: "is_finite (safe_get info ''payoutRatio'' (Fin 0))"
    using assms(1) by (intro is_finite_safe_get) (simp_all add: profile_keys_def is_finite_Fin)
  show ?thesis
  proof (cases "feq (safe_get info ''payoutRatio'' (Fin 0)) (Fin 0)")
    case True
    with assms(1) have "finite_key info ''dividendYield''" "finite_key info ''trailingEps''"
      by (simp_all add: finite_profile_def)
    then have "is_finite (safe_get info ''dividendYield'' (Fin 0))"
      "is_finite (safe_get info ''trailingEps'' (Fin 0))"
      by (auto intro!: is_finite_safe_get_key simp: is_finite_Fin)
    with a assms(2,3) True show ?thesis
      by (auto simp: fetch_payout_ratio_def Let_def py_div_def bindE_def is_finite_iff
          fmul_100_zero split: if_splits)
  next
    case False
    with a assms(3) show ?thesis
      by (auto simp: fetch_payout_ratio_def Let_def fmul_100_zero is_finite_iff)
  qed
qed

lemma find_None_all: "\<forall>x \<in> set xs. \<not> P x \<Longrightarrow> find P xs = None"
  by (simp add: find_None_iff)

text \<open>
  Claim C8, as stated, asks that every field of the record is a finite number for every
  input that does not give the "unavailable" outcome. The revenue of a table whose
  revenue cell is not-a-number is not-a-number in the record.
\<close>

theorem resolved_fields_counterexample:
  "map_option Pendapatan
     (fetch_fundamental_data (retrieved ex_info nan_financials ex_balance_sheet ex_history)) =
   Some NaN"
proof -
  have ne: "\<not> frame_empty nan_financials" "\<not> frame_empty ex_balance_sheet"
    by (simp_all add: frame_empty_def nan_financials_def ex_balance_sheet_def)
  have c: "last_close ex_history = Inr (Fin 95)"
    by (simp add: last_close_def frame_empty_def ex_history_def)
  have "resolve_spec nan_financials [''Total Revenue'', ''Revenue''] 0 = NaN"
    by (simp add: resolve_spec_def nan_financials_def)
  with fetch_try_retrieved [OF ne c, of ex_info] show ?thesis
    by (auto simp: fetch_fundamental_data_def)
qed

text \<open>
  Claim C8, amended. For statement tables with unique labels and float64 cells, whenever
  the resolver produces a record:
  \<^item> revenue, net income and equity are the statement cells as stored, without coercion
    (a not-a-number cell stays not-a-number);
  \<^item> every field is a finite number (in exact arithmetic) provided that the statement
    cells that are read (revenue, net income and equity at offset 0, net income and
    equity of the trailing periods), the closing price that is read, and the values of
    the profile keys that are read are finite, where a profile value also counts when it
    is null or does not convert (the quarterly earnings growth is read only when the
    annual one resolves to 0, the dividend yield and the trailing earnings per share only
    when the payout ratio resolves to 0);
  \<^item> unresolved inputs default to 0: the share count, the current price (with an empty
    price history), the growth rates, the payout ratio and the three multiples when
    their keys are absent from the profile; revenue, net income and equity when none of
    their labels is in the table; the annual return on equity when the equity is 0; the
    trailing return on equity when no period qualifies.
\<close>

theorem resolved_fields_finite:
  "fetch_fundamental_data (retrieved info fin bs h) = Some d \<longrightarrow>
     Pendapatan d = get_from_financials fin [''Total Revenue'', ''Revenue''] 0 \<and>
     Profit d = get_from_financials fin [''Net Income'', ''Net Income Common Stockholders''] 0 \<and>
     Equity d = get_equity_from_balance_sheet bs \<and>
     (finite_profile info \<and> list_all is_finite (cells_read fin bs) \<and> close_finite h \<longrightarrow>
        finite_fields d) \<and>
     (entry info ''sharesOutstanding'' = None \<longrightarrow> Shares d = Fin 0) \<and>
     (entry info ''currentPrice'' = None \<and> frame_empty h \<longrightarrow> Last_Price d = Fin 0) \<and>
     (''Total Revenue'' \<notin> set (index fin) \<and> ''Revenue'' \<notin> set (index fin) \<longrightarrow>
        Pendapatan d = Fin 0) \<and>
     (''Net Income'' \<notin> set (index fin) \<and>
      ''Net Income Common Stockholders'' \<notin> set (index fin) \<longrightarrow> Profit d = Fin 0) \<and>
     ((\<forall>k \<in> set candidates. k \<notin> set (index bs)) \<longrightarrow> Equity d = Fin 0) \<and>
     (Equity d = Fin 0 \<longrightarrow> ROE_Annual d = Fin 0) \<and>
     (period_roes fin bs = [] \<longrightarrow> ROE_5_Years d = Fin 0) \<and>
     (entry info ''earningsGrowth'' = None \<and> entry info ''earningsQuarterlyGrowth'' = None \<longrightarrow>
        EPS_Growth_5_Years d = Fin 0) \<and>
     (entry info ''revenueGrowth'' = None \<longrightarrow>
        SPS_Growth_Annual d = Fin 0 \<and> SPS_Growth_5_Years d = Fin 0) \<and>
     (entry info ''payoutRatio'' = None \<and>
      (entry info ''dividendYield'' = None \<or> entry info ''trailingEps'' = None) \<longrightarrow>
        DPR d = Fin 0) \<and>
     (entry info ''priceToBook'' = None \<longrightarrow> Average_PBV d = Fin 0) \<and>
     (entry info ''trailingPE'' = None \<longrightarrow> Average_PER d = Fin 0) \<and>
     (entry info ''priceToSalesTrailing12Months'' = None \<longrightarrow> Average_PSR d = Fin 0)"
proof
  assume a: "fetch_fundamental_data (retrieved info fin bs h) = Some d"
  then have ne: "\<not> frame_empty fin" "\<not> frame_empty bs"
    and "\<not> (\<not> frame_empty h \<and> ''Close'' \<notin> set (index h))"
    using fetch_none_iff [of info fin bs h] by auto
  then obtain c where c: "last_close h = Inr c"
    using last_close_Inl_iff [of h] by (cases "last_close h") auto
  from fetch_try_retrieved [OF ne c, of info] obtain s pr where
    s: "fetch_shares info = Inr s" and
    pr: "fetch_payout_ratio info (safe_get info ''currentPrice'' c) = Inr pr" and
    t: "fetch_try (retrieved info fin bs h) = Inr (Some
          \<lparr>Shares = s,
           Last_Price = safe_get info ''currentPrice'' c,
           Pendapatan = resolve_spec fin [''Total Revenue'', ''Revenue''] 0,
           Profit = resolve_spec fin [''Net Income'', ''Net Income Common Stockholders''] 0,
           Equity = resolve_spec bs candidates 0,
           ROE_Annual =
             (if fne (resolve_spec bs candidates 0) (Fin 0)
              then fmul (fdiv (resolve_spec fin
                                 [''Net Income'', ''Net Income Common Stockholders''] 0)
                           (resolve_spec bs candidates 0)) (Fin 100)
              else Fin 0),
           ROE_5_Years = trailing_roe_spec fin bs,
           EPS_Growth_5_Years = fetch_eps_growth_5y info,
           SPS_Growth_Annual = fmul (safe_get info ''revenueGrowth'' (Fin 0)) (Fin 100),
           SPS_Growth_5_Years = fmul (safe_get info ''revenueGrowth'' (Fin 0)) (Fin 100),
           DPR = pr,
           Average_PBV = safe_get info ''priceToBook'' (Fin 0),
           Average_PER = safe_get info ''trailingPE'' (Fin 0),
           Average_PSR = safe_get info ''priceToSalesTrailing12Months'' (Fin 0)\<rparr>)"
    by blast
  from a t have d: "d =
          \<lparr>Shares = s,
           Last_Price = safe_get info ''currentPrice'' c,
           Pendapatan = resolve_spec fin [''Total Revenue'', ''Revenue''] 0,
           Profit = resolve_spec fin [''Net Income'', ''Net Income Common Stockholders''] 0,
           Equity = resolve_spec bs candidates 0,
           ROE_Annual =
             (if fne (resolve_spec bs candidates 0) (Fin 0)
              then fmul (fdiv (resolve_spec fin
                                 [''Net Income'', ''Net Income Common Stockholders''] 0)
                           (resolve_spec bs candidates 0)) (Fin 100)
              else Fin 0),
           ROE_5_Years = trailing_roe_spec fin bs,
           EPS_Growth_5_Years = fetch_eps_growth_5y info,
           SPS_Growth_Annual = fmul (safe_get info ''revenueGrowth'' (Fin 0)) (Fin 100),
           SPS_Growth_5_Years = fmul (safe_get info ''revenueGrowth'' (Fin 0)) (Fin 100),
           DPR = pr,
           Average_PBV = safe_get info ''priceToBook'' (Fin 0),
           Average_PER = safe_get info ''trailingPE'' (Fin 0),
           Average_PSR = safe_get info ''priceToSalesTrailing12Months'' (Fin 0)\<rparr>"
    by (simp add: fetch_fundamental_data_def)
  have copies:
    "Pendapatan d = get_from_financials fin [''Total Revenue'', ''Revenue''] 0"
    "Profit d = get_from_financials fin [''Net Income'', ''Net Income Common Stockholders''] 0"
    "Equity d = get_equity_from_balance_sheet bs"
    unfolding d
    by (simp_all add: get_from_financials_resolve get_equity_from_balance_sheet_def
        equity_loop_resolve del: get_from_financials.simps)
  have finite: "finite_fields d"
    if p: "finite_profile info" and f: "list_all is_finite (cells_read fin bs)"
      and cf: "close_finite h"
  proof -
    have fc: "is_finite c"
      using cf c by (simp add: close_finite_def)
    have lp: "is_finite (safe_get info ''currentPrice'' c)"
      using p fc by (intro is_finite_safe_get) (simp_all add: profile_keys_def)
    have sg: "is_finite (safe_get info key (Fin 0))" if "key \<in> set profile_keys" for key
      using p that by (intro is_finite_safe_get) (simp_all add: is_finite_Fin)
    have z: "is_finite (Fin 0)" "is_finite (Fin 100)"
      by (simp_all add: is_finite_Fin)
    show ?thesis
      unfolding finite_fields_def d
      using is_finite_fetch_shares [OF p s] lp is_finite_fetch_payout_ratio [OF p lp pr]
        is_finite_fetch_eps_growth_5y [OF p] is_finite_trailing_roe_spec [OF f]
        cells_read_finite(1,2,3) [OF f] z
      by (simp add: is_finite_fmul is_finite_fdiv sg profile_keys_def)
  qed
  have shares: "Shares d = Fin 0" if "entry info ''sharesOutstanding'' = None"
    using s that unfolding d by (simp add: fetch_shares_def safe_get_cases fgt_def Let_def)
  have price: "Last_Price d = Fin 0" if "entry info ''currentPrice'' = None \<and> frame_empty h"
    using c that unfolding d by (simp add: safe_get_cases last_close_def)
  have payout: "DPR d = Fin 0"
    if "entry info ''payoutRatio'' = None \<and>
      (entry info ''dividendYield'' = None \<or> entry info ''trailingEps'' = None)"
    using pr that unfolding d
    by (auto simp: fetch_payout_ratio_def safe_get_cases fgt_def feq_def is_nan_def Let_def)
  have growth: "EPS_Growth_5_Years d = Fin 0"
    if "entry info ''earningsGrowth'' = None \<and> entry info ''earningsQuarterlyGrowth'' = None"
    using that unfolding d by (simp add: fetch_eps_growth_5y_def safe_get_cases Let_def)
  have annual: "ROE_Annual d = Fin 0" if "Equity d = Fin 0"
    using that unfolding d by (simp add: fne_def feq_def is_nan_def)
  have trailing: "ROE_5_Years d = Fin 0" if "period_roes fin bs = []"
    using that unfolding d by (simp add: trailing_roe_spec_def)
  have equity: "Equity d = Fin 0" if "\<forall>k \<in> set candidates. k \<notin> set (index bs)"
    using that unfolding d by (simp add: resolve_spec_def find_None_all)
  have rest:
    "entry info ''revenueGrowth'' = None \<longrightarrow>
       SPS_Growth_Annual d = Fin 0 \<and> SPS_Growth_5_Years d = Fin 0"
    "entry info ''priceToBook'' = None \<longrightarrow> Average_PBV d = Fin 0"
    "entry info ''trailingPE'' = None \<longrightarrow> Average_PER d = Fin 0"
    "entry info ''priceToSalesTrailing12Months'' = None \<longrightarrow> Average_PSR d = Fin 0"
    "''Total Revenue'' \<notin> set (index fin) \<and> ''Revenue'' \<notin> set (index fin) \<longrightarrow>
       Pendapatan d = Fin 0"
    "''Net Income'' \<notin> set (index fin) \<and>
     ''Net Income Common Stockholders'' \<notin> set (index fin) \<longrightarrow> Profit d = Fin 0"
    unfolding d by (simp_all add: safe_get_cases resolve_spec_def)
  show "Pendapatan d = get_from_financials fin [''Total Revenue'', ''Revenue''] 0 \<and>
     Profit d = get_from_financials fin [''Net Income'', ''Net Income Common Stockholders''] 0 \<and>
     Equity d = get_equity_from_balance_sheet bs \<and>
     (finite_profile info \<and> list_all is_finite (cells_read fin bs) \<and> close_finite h \<longrightarrow>
        finite_fields d) \<and>
     (entry info ''sharesOutstanding'' = None \<longrightarrow> Shares d = Fin 0) \<and>
     (entry info ''currentPrice'' = None \<and> frame_empty h \<longrightarrow> Last_Price d = Fin 0) \<and>
     (''Total Revenue'' \<notin> set (index fin) \<and> ''Revenue'' \<notin> set (index fin) \<longrightarrow>
        Pendapatan d = Fin 0) \<and>
     (''Net Income'' \<notin> set (index fin) \<and>
      ''Net Income Common Stockholders'' \<notin> set (index fin) \<longrightarrow> Profit d = Fin 0) \<and>
     ((\<forall>k \<in> set candidates. k \<notin> set (index bs)) \<longrightarrow> Equity d = Fin 0) \<and>
     (Equity d = Fin 0 \<longrightarrow> ROE_Annual d = Fin 0) \<and>
     (period_roes fin bs = [] \<longrightarrow> ROE_5_Years d = Fin 0) \<and>
     (entry info ''earningsGrowth'' = None \<and> entry info ''earningsQuarterlyGrowth'' = None \<longrightarrow>
        EPS_Growth_5_Years d = Fin 0) \<and>
     (entry info ''revenueGrowth'' = None \<longrightarrow>
        SPS_Growth_Annual d = Fin 0 \<and> SPS_Growth_5_Years d = Fin 0) \<and>
     (entry info ''payoutRatio'' = None \<and>
      (entry info ''dividendYield'' = None \<or> entry info ''trailingEps'' = None) \<longrightarrow>
        DPR d = Fin 0) \<and>
     (entry info ''priceToBook'' = None \<longrightarrow> Average_PBV d = Fin 0) \<and>
     (entry info ''trailingPE'' = None \<longrightarrow> Average_PER d = Fin 0) \<and>
     (entry info ''priceToSalesTrailing12Months'' = None \<longrightarrow> Average_PSR d = Fin 0)"
    using copies finite shares price payout growth annual trailing equity rest
    by blast
qed

text \<open>
  On the example profile and history, with an income statement that has an unread row of
  not-a-number cells: the hypotheses hold, a record is produced and its fields are
  finite; the revenue is the cell 40; the keys of the payout ratio and of the
  price-to-sales ratio are absent and the fields are 0. The same with the profile whose
  unread keys hold a not-a-number string and an infinity.
\<close>

theorem resolved_fields_finite_witness:
  "finite_profile ex_info \<and> list_all is_finite (cells_read sparse_financials ex_balance_sheet) \<and>
   close_finite ex_history \<and>
   (case fetch_fundamental_data (retrieved ex_info sparse_financials ex_balance_sheet ex_history)
    of Some d \<Rightarrow>
         finite_fields d \<and> Pendapatan d = Fin 40 \<and> DPR d = Fin 0 \<and> Average_PSR d = Fin 0
     | None \<Rightarrow> False) \<and>
   finite_profile skewed_info \<and>
   (case fetch_fundamental_data
           (retrieved skewed_info sparse_financials ex_balance_sheet ex_history)
    of Some d \<Rightarrow> finite_fields d \<and> Shares d = Fin 0
     | None \<Rightarrow> False)"
proof -
  have sg: "safe_get skewed_info ''earningsGrowth'' (Fin 0) = Fin (1 / 10)"
    "safe_get skewed_info ''payoutRatio'' (Fin 0) = Fin (3 / 10)"
    by (simp_all add: safe_get_def safe_get_try_def skewed_info_def coerce_or_default_def
        pd_notna_def py_float_def is_nan_def)
  have p2: "finite_profile skewed_info"
    unfolding finite_profile_def sg
    by (simp add: finite_key_def profile_keys_def entry_def skewed_info_def finite_value_def
        pd_notna_def py_float_def is_finite_Fin is_nan_def feq_def)
  have k2: "entry skewed_info ''sharesOutstanding'' = None"
    by (simp add: entry_def skewed_info_def)
  have p: "finite_profile ex_info"
    by (simp add: finite_profile_def finite_key_def profile_keys_def entry_def ex_info_def
        finite_value_def pd_notna_def py_float_def is_finite_Fin parse_defs)
  have f: "list_all is_finite (cells_read sparse_financials ex_balance_sheet)"
    by (simp add: cells_read_def resolve_spec_def sparse_financials_def ex_balance_sheet_def
        candidates_def is_finite_Fin)
  have h: "close_finite ex_history"
    by (simp add: close_finite_def last_close_def frame_empty_def ex_history_def is_finite_Fin)
  have k: "entry ex_info ''priceToSalesTrailing12Months'' = None"
    "entry ex_info ''payoutRatio'' = None" "entry ex_info ''dividendYield'' = None"
    by (simp_all add: entry_def ex_info_def)
  have r: "get_from_financials sparse_financials [''Total Revenue'', ''Revenue''] 0 = Fin 40"
    by (simp add: sparse_financials_def loc_def)
  have "fetch_fundamental_data (retrieved ex_info sparse_financials ex_balance_sheet ex_history)
      \<noteq> None"
    by (simp add: fetch_none_iff frame_empty_def sparse_financials_def ex_balance_sheet_def
        ex_history_def)
  then obtain d where
    d: "fetch_fundamental_data (retrieved ex_info sparse_financials ex_balance_sheet ex_history)
      = Some d"
    by blast
  have one: "finite_fields d \<and> Pendapatan d = Fin 40 \<and> DPR d = Fin 0 \<and> Average_PSR d = Fin 0"
    using resolved_fields_finite [of ex_info sparse_financials ex_balance_sheet ex_history d]
      p f h k d r
    by simp
  have "fetch_fundamental_data
      (retrieved skewed_info sparse_financials ex_balance_sheet ex_history) \<noteq> None"
    by (simp add: fetch_none_iff frame_empty_def sparse_financials_def ex_balance_sheet_def
        ex_history_def)
  then obtain d2 where
    d2: "fetch_fundamental_data
      (retrieved skewed_info sparse_financials ex_balance_sheet ex_history) = Some d2"
    by blast
  have two: "finite_fields d2 \<and> Shares d2 = Fin 0"
    using resolved_fields_finite [of skewed_info sparse_financials ex_balance_sheet ex_history d2]
      p2 f h k2 d2
    by simp
  from p f h d one p2 d2 two show ?thesis
    by simp
qed

section \<open>Per-share metrics and the projection\<close>

lemma upt5: "[0..<5] = [0, 1, 2, 3, 4]"
  by (simp add: upt_rec)

lemma compound_loop_eq:
  "compound_loop numpy m g is =
     (if numpy \<or> list_all (\<lambda>i. \<not> pow_overflows (fadd (Fin 1) g) (i + 1)) is
      then Inr (map (\<lambda>i. fmul m (np_pow (fadd (Fin 1) g) (i + 1))) is)
      else Inl OverflowError)"
  by (induction "is") (auto simp: power_of_def py_pow_eq bindE_def)

lemma compound_eq:
  "compound numpy m g =
     (if numpy \<or> powers_in_range (fadd (Fin 1) g) then Inr (projected m g)
      else Inl OverflowError)"
  by (simp add: compound_def compound_loop_eq powers_in_range_def projected_def)

lemma projected_nth:
  "i < 5 \<Longrightarrow> projected m g ! i = fmul m (np_pow (fadd (Fin 1) g) (i + 1))"
  by (simp add: projected_def)

lemma small_power_in_range:
  fixes x :: real
  assumes "\<bar>x\<bar> \<le> 10" "n \<le> 5"
  shows "\<not> overflows (x ^ n)"
proof -
  have "\<bar>x ^ n\<bar> = \<bar>x\<bar> ^ n"
    by (simp add: power_abs)
  also have "\<dots> \<le> 10 ^ n"
    using assms(1) by (intro power_mono) simp_all
  also have "\<dots> \<le> (10 :: real) ^ 5"
    using assms(2) by (intro power_increasing) simp_all
  also have "\<dots> < overflow_bound"
    by (simp add: overflow_bound_def)
  finally show ?thesis
    by (simp add: overflows_def)
qed

lemma small_powers_in_range:
  assumes "\<bar>x\<bar> \<le> 10"
  shows "powers_in_range (Fin x)"
proof -
  have "\<not> pow_overflows (Fin x) (i + 1)" if "i \<in> set [0..<5]" for i
    using that small_power_in_range [OF assms, of "i + 1"] by (simp add: pow_overflows_def)
  then show ?thesis
    unfolding powers_in_range_def list_all_iff by blast
qed

lemma small_projected:
  assumes "\<bar>1 + g\<bar> \<le> 10"
  shows "projected (Fin m) (Fin g) = map (\<lambda>i. Fin (m * (1 + g) ^ (i + 1))) [0..<5]"
proof -
  have "fmul (Fin m) (np_pow (fadd (Fin 1) (Fin g)) (i + 1)) = Fin (m * (1 + g) ^ (i + 1))"
    if "i \<in> set [0..<5]" for i
  proof -
    have "\<not> overflows ((1 + g) ^ (i + 1))"
      using that by (intro small_power_in_range [OF assms]) simp
    then have "np_pow (Fin (1 + g)) (i + 1) = Fin ((1 + g) ^ (i + 1))"
      by (rule np_pow_Fin)
    then show ?thesis
      by (simp del: np_pow.simps)
  qed
  then show ?thesis
    unfolding projected_def by (intro map_cong refl)
qed

lemma fifth_root_bounds:
  fixes q lo hi :: real
  assumes "0 < lo" "lo ^ 5 \<le> q" "q \<le> hi ^ 5" "0 < hi"
  shows "lo \<le> q powr (1 / 5) \<and> q powr (1 / 5) \<le> hi"
proof -
  have r: "(x ^ 5) powr (1 / 5) = x" if "0 < x" for x :: real
  proof -
    have "(x ^ 5) powr (1 / 5) = (x powr 5) powr (1 / 5)"
      using that powr_realpow [of x 5] by simp
    also have "\<dots> = x powr 1"
      by (simp add: powr_powr)
    finally show ?thesis
      using that by simp
  qed
  have "(lo ^ 5) powr (1 / 5) \<le> q powr (1 / 5)"
    using assms by (intro powr_mono2) simp_all
  moreover have "q powr (1 / 5) \<le> (hi ^ 5) powr (1 / 5)"
    using assms by (intro powr_mono2) (simp_all add: order_trans [of 0 "lo ^ 5" q])
  ultimately show ?thesis
    using r assms by simp
qed

subsection \<open>The formulas\<close>

lemma bv_fv_eq:
  "bv_fv numpy d =
     (if numpy \<or> powers_in_range (fadd (Fin 1) (fdiv (ROE_5_Years d) (Fin 100)))
      then Inr (projected
                  (if fgt (shares_outstanding d) (Fin 0)
                   then fdiv (Equity d) (shares_outstanding d) else Fin 0)
                  (fdiv (ROE_5_Years d) (Fin 100)))
      else Inl OverflowError)"
  by (simp add: bv_fv_def book_value_per_share_def per_share_eq roe_def rate_eq bindE_def
      compound_eq)

lemma eps_fv_eq:
  "eps_fv d =
     (if powers_in_range (fadd (Fin 1) (fdiv (EPS_Growth_5_Years d) (Fin 100)))
      then Inr (projected
                  (if fgt (shares_outstanding d) (Fin 0)
                   then fdiv (Profit d) (shares_outstanding d) else Fin 0)
                  (fdiv (EPS_Growth_5_Years d) (Fin 100)))
      else Inl OverflowError)"
  by (simp add: eps_fv_def eps_current_def per_share_eq eps_growth_def rate_eq bindE_def
      compound_eq)

lemma sps_fv_eq:
  "sps_fv d =
     (if powers_in_range (fadd (Fin 1) (fdiv (SPS_Growth_5_Years d) (Fin 100)))
      then Inr (projected
                  (if fgt (shares_outstanding d) (Fin 0)
                   then fdiv (Pendapatan d) (shares_outstanding d) else Fin 0)
                  (fdiv (SPS_Growth_5_Years d) (Fin 100)))
      else Inl OverflowError)"
  by (simp add: sps_fv_def sps_current_def per_share_eq sps_growth_def rate_eq bindE_def
      compound_eq)

subsection \<open>The end-to-end scenario\<close>

lemma scenario_pbv:
  "price_pbv numpy scenario =
     Inr (map (\<lambda>i. Fin (800 * (112 / 100) ^ (i + 1) * (3 / 2))) [0..<5])"
proof -
  have v: "shares_outstanding scenario = Fin 10000000" "Equity scenario = Fin 8000000000"
    "ROE_5_Years scenario = Fin 12" "Average_PBV scenario = Fin (3 / 2)"
    by (simp_all add: scenario_def shares_outstanding_def)
  show ?thesis
    by (simp add: price_pbv_def bv_fv_eq v fgt_def bindE_def small_powers_in_range
        small_projected)
qed

lemma scenario_per:
  "price_per scenario = Inr (map (\<lambda>i. Fin (100 * (110 / 100) ^ (i + 1) * 10)) [0..<5])"
proof -
  have v: "shares_outstanding scenario = Fin 10000000" "Profit scenario = Fin 1000000000"
    "EPS_Growth_5_Years scenario = Fin 10" "Average_PER scenario = Fin 10"
    by (simp_all add: scenario_def shares_outstanding_def)
  show ?thesis
    by (simp add: price_per_def eps_fv_eq v fgt_def bindE_def small_powers_in_range
        small_projected)
qed

lemma scenario_psr:
  "price_psr scenario = Inr (map (\<lambda>i. Fin (500 * (108 / 100) ^ (i + 1) * 2)) [0..<5])"
proof -
  have v: "shares_outstanding scenario = Fin 10000000" "Pendapatan scenario = Fin 5000000000"
    "SPS_Growth_5_Years scenario = Fin 8" "Average_PSR scenario = Fin 2"
    by (simp_all add: scenario_def shares_outstanding_def)
  show ?thesis
    by (simp add: price_psr_def sps_fv_eq v fgt_def bindE_def small_powers_in_range
        small_projected)
qed

lemma scenario_summary:
  "summarize numpy scenario =
     Inr \<lparr>Last_Price_Now = Fin 100,
          Future_Price_2029 = Fin (8116637651 / 4687500),
          GL_Potential = Fin (7647887651 / 4687500),
          Annual_Return = Fin (7647887651 / 23437500),
          Margin_of_Safety = Fin (764788765100 / 8116637651),
          CAGR = Fin (((8116637651 / 468750000) powr (1 / 5) - 1) * 100)\<rparr>"
proof -
  have lp: "Last_Price scenario = Fin 100"
    by (simp add: scenario_def)
  show ?thesis
    by (simp add: summarize_def scenario_pbv scenario_per scenario_psr bindE_def upt5
        future_price_final_def np_nanmean_def np_mean_def is_nan_def fsum_def power_divide
        summary_data_eq lp fgt_def fsub_def py_max_def)
qed

lemma scenario_root:
  "(176883 / 100000 :: real) \<le> (8116637651 / 468750000) powr (1 / 5) \<and>
   (8116637651 / 468750000 :: real) powr (1 / 5) \<le> 176884 / 100000"
  by (rule fifth_root_bounds) (simp_all add: power_divide)

lemma scenario_cagr:
  "\<exists>r. map_sum id CAGR (summarize numpy scenario) = Inr (Fin ((r - 1) * 100)) \<and>
       176883 / 100000 \<le> r \<and> r \<le> 176884 / 100000"
  using scenario_root by (simp add: scenario_summary)

lemma runaway_overflow: "eps_fv runaway = Inl OverflowError"
proof -
  have "overflows ((1 + 10 ^ 80 / 100 :: real) ^ 4)"
    by (simp add: overflows_def overflow_bound_def)
  then have "\<not> powers_in_range (Fin (1 + 10 ^ 80 / 100))"
    by (simp add: powers_in_range_def upt5 pow_overflows_def)
  then show ?thesis
    by (simp add: eps_fv_eq runaway_def scenario_def)
qed

text \<open>
  Claim C1, as stated, gives a compound annual growth rate of about 78.6 percent for the
  scenario, and a projection for every input. The summary computed for the scenario (in
  either mode of the form) has a rate within 0.01 of 76.88, which is not within 0.5 of
  78.6. With an earnings growth of \<open>10^80\<close> percent the fourth power overflows and the
  projection of the earnings raises OverflowError.
\<close>

theorem scenario_cagr_counterexample:
  "(case summarize False scenario of
      Inr s \<Rightarrow> approx (CAGR s) (7688 / 100) (1 / 100) \<and> \<not> approx (CAGR s) (786 / 10) (1 / 2)
    | Inl e \<Rightarrow> False) \<and>
   (case summarize True scenario of
      Inr s \<Rightarrow> approx (CAGR s) (7688 / 100) (1 / 100) \<and> \<not> approx (CAGR s) (786 / 10) (1 / 2)
    | Inl e \<Rightarrow> False) \<and>
   eps_fv runaway = Inl OverflowError"
proof -
  have one: "case summarize numpy scenario of
      Inr s \<Rightarrow> approx (CAGR s) (7688 / 100) (1 / 100) \<and> \<not> approx (CAGR s) (786 / 10) (1 / 2)
    | Inl e \<Rightarrow> False" for numpy
  proof -
    obtain r where c: "map_sum id CAGR (summarize numpy scenario) = Inr (Fin ((r - 1) * 100))"
      and b: "176883 / 100000 \<le> r" "r \<le> 176884 / 100000"
      using scenario_cagr by blast
    have "\<bar>(r - 1) * 100 - 7688 / 100\<bar> \<le> 1 / 100"
      unfolding abs_le_iff using b by (simp add: algebra_simps)
    moreover have "\<not> \<bar>(r - 1) * 100 - 786 / 10\<bar> \<le> 1 / 2"
      unfolding abs_le_iff using b by (simp add: algebra_simps)
    ultimately show ?thesis
      using c by (cases "summarize numpy scenario") (auto simp: approx_def)
  qed
  show ?thesis
    using one [of False] one [of True] runaway_overflow by simp
qed

text \<open>
  Claim C1, amended. For every fundamentals input the per-share metrics are the aggregate
  divided by share count (millions) times 1,000,000 when that product is greater than 0,
  and 0 otherwise, in particular when the share count is 0. The projection engine returns,
  for every forecast-year index \<open>i\<close> from 0 to 4, projected book value, earnings and
  sales per share = per-share metric times (1 + rate) to the power \<open>i + 1\<close>, with the
  rate the percentage divided by 100, and future price = projected metric times its
  multiple, unless one of the five powers of a Python float overflows binary64: then the
  projection raises OverflowError and returns nothing. (The return on equity is a numpy
  float64 when the form hands on a resolved trailing average; its power does not raise,
  an overflowing one is an infinity. Sums, products and quotients are exact.) For the
  scenario, in either mode, the year-5 future
  prices are 2114.81 (book), 1610.51 (earnings) and 1469.33 (sales), the blended future
  price 1731.55, gain/loss 1631.55 percent, and the compound annual growth rate 76.88
  percent, each within 0.005.
\<close>

theorem projection_formulas:
  "shares_outstanding d = fmul (Shares d) (Fin 1000000) \<and>
   book_value_per_share d =
     Inr (if fgt (shares_outstanding d) (Fin 0) then fdiv (Equity d) (shares_outstanding d)
          else Fin 0) \<and>
   eps_current d =
     Inr (if fgt (shares_outstanding d) (Fin 0) then fdiv (Profit d) (shares_outstanding d)
          else Fin 0) \<and>
   sps_current d =
     Inr (if fgt (shares_outstanding d) (Fin 0) then fdiv (Pendapatan d) (shares_outstanding d)
          else Fin 0) \<and>
   (Shares d = Fin 0 \<longrightarrow>
      book_value_per_share d = Inr (Fin 0) \<and> eps_current d = Inr (Fin 0) \<and>
      sps_current d = Inr (Fin 0)) \<and>
   (\<exists>bv eps sps r ge gs.
      book_value_per_share d = Inr bv \<and> eps_current d = Inr eps \<and> sps_current d = Inr sps \<and>
      r = fdiv (ROE_5_Years d) (Fin 100) \<and> ge = fdiv (EPS_Growth_5_Years d) (Fin 100) \<and>
      gs = fdiv (SPS_Growth_5_Years d) (Fin 100) \<and>
      bv_fv numpy d =
        (if numpy \<or> powers_in_range (fadd (Fin 1) r) then Inr (projected bv r)
         else Inl OverflowError) \<and>
      eps_fv d =
        (if powers_in_range (fadd (Fin 1) ge) then Inr (projected eps ge)
         else Inl OverflowError) \<and>
      sps_fv d =
        (if powers_in_range (fadd (Fin 1) gs) then Inr (projected sps gs)
         else Inl OverflowError) \<and>
      price_pbv numpy d =
        (if numpy \<or> powers_in_range (fadd (Fin 1) r)
         then Inr (map (\<lambda>v. fmul v (Average_PBV d)) (projected bv r))
         else Inl OverflowError) \<and>
      price_per d =
        (if powers_in_range (fadd (Fin 1) ge)
         then Inr (map (\<lambda>v. fmul v (Average_PER d)) (projected eps ge))
         else Inl OverflowError) \<and>
      price_psr d =
        (if powers_in_range (fadd (Fin 1) gs)
         then Inr (map (\<lambda>v. fmul v (Average_PSR d)) (projected sps gs))
         else Inl OverflowError)) \<and>
   (\<forall>i<5. projected m g ! i = fmul m (np_pow (fadd (Fin 1) g) (i + 1))) \<and>
   (\<not> overflows (x ^ n) \<longrightarrow> np_pow (Fin x) n = Fin (x ^ n)) \<and>
   (\<exists>pbv per psr s.
      price_pbv numpy scenario = Inr pbv \<and> approx (last pbv) (211481 / 100) (5 / 1000) \<and>
      price_per scenario = Inr per \<and> approx (last per) (161051 / 100) (5 / 1000) \<and>
      price_psr scenario = Inr psr \<and> approx (last psr) (146933 / 100) (5 / 1000) \<and>
      summarize numpy scenario = Inr s \<and>
      approx (Future_Price_2029 s) (173155 / 100) (5 / 1000) \<and>
      approx (GL_Potential s) (163155 / 100) (5 / 1000) \<and>
      approx (CAGR s) (7688 / 100) (5 / 1000))"
proof -
  have per_share: "book_value_per_share d =
      Inr (if fgt (shares_outstanding d) (Fin 0) then fdiv (Equity d) (shares_outstanding d)
           else Fin 0)"
    "eps_current d =
      Inr (if fgt (shares_outstanding d) (Fin 0) then fdiv (Profit d) (shares_outstanding d)
           else Fin 0)"
    "sps_current d =
      Inr (if fgt (shares_outstanding d) (Fin 0) then fdiv (Pendapatan d) (shares_outstanding d)
           else Fin 0)"
    by (simp_all add: book_value_per_share_def eps_current_def sps_current_def per_share_eq)
  have zero: "Shares d = Fin 0 \<Longrightarrow> \<not> fgt (shares_outstanding d) (Fin 0)"
    by (simp add: shares_outstanding_def fgt_def)
  have rows: "\<exists>bv eps sps r ge gs.
      book_value_per_share d = Inr bv \<and> eps_current d = Inr eps \<and> sps_current d = Inr sps \<and>
      r = fdiv (ROE_5_Years d) (Fin 100) \<and> ge = fdiv (EPS_Growth_5_Years d) (Fin 100) \<and>
      gs = fdiv (SPS_Growth_5_Years d) (Fin 100) \<and>
      bv_fv numpy d =
        (if numpy \<or> powers_in_range (fadd (Fin 1) r) then Inr (projected bv r)
         else Inl OverflowError) \<and>
      eps_fv d =
        (if powers_in_range (fadd (Fin 1) ge) then Inr (projected eps ge)
         else Inl OverflowError) \<and>
      sps_fv d =
        (if powers_in_range (fadd (Fin 1) gs) then Inr (projected sps gs)
         else Inl OverflowError) \<and>
      price_pbv numpy d =
        (if numpy \<or> powers_in_range (fadd (Fin 1) r)
         then Inr (map (\<lambda>v. fmul v (Average_PBV d)) (projected bv r))
         else Inl OverflowError) \<and>
      price_per d =
        (if powers_in_range (fadd (Fin 1) ge)
         then Inr (map (\<lambda>v. fmul v (Average_PER d)) (projected eps ge))
         else Inl OverflowError) \<and>
      price_psr d =
        (if powers_in_range (fadd (Fin 1) gs)
         then Inr (map (\<lambda>v. fmul v (Average_PSR d)) (projected sps gs))
         else Inl OverflowError)"
    by (simp add: per_share bv_fv_eq eps_fv_eq sps_fv_eq price_pbv_def price_per_def
        price_psr_def bindE_def)
  obtain r where c: "map_sum id CAGR (summarize numpy scenario) = Inr (Fin ((r - 1) * 100))"
    and b: "176883 / 100000 \<le> r" "r \<le> 176884 / 100000"
    using scenario_cagr by blast
  have "\<bar>(r - 1) * 100 - 7688 / 100\<bar> \<le> 5 / 1000"
    unfolding abs_le_iff using b by (simp add: algebra_simps)
  with c have cg: "approx (CAGR s) (7688 / 100) (5 / 1000)"
    if "summarize numpy scenario = Inr s" for s
    using that by (auto simp: approx_def)
  have ex: "\<exists>pbv per psr s.
      price_pbv numpy scenario = Inr pbv \<and> approx (last pbv) (211481 / 100) (5 / 1000) \<and>
      price_per scenario = Inr per \<and> approx (last per) (161051 / 100) (5 / 1000) \<and>
      price_psr scenario = Inr psr \<and> approx (last psr) (146933 / 100) (5 / 1000) \<and>
      summarize numpy scenario = Inr s \<and>
      approx (Future_Price_2029 s) (173155 / 100) (5 / 1000) \<and>
      approx (GL_Potential s) (163155 / 100) (5 / 1000) \<and>
      approx (CAGR s) (7688 / 100) (5 / 1000)"
    using cg [OF scenario_summary]
    by (simp add: scenario_pbv scenario_per scenario_psr scenario_summary upt5 approx_def
        power_divide)
  have nth: "\<forall>i<5. projected m g ! i = fmul m (np_pow (fadd (Fin 1) g) (i + 1))"
    by (simp add: projected_nth)
  have np: "\<not> overflows (x ^ n) \<longrightarrow> np_pow (Fin x) n = Fin (x ^ n)"
    by (simp add: np_pow_Fin)
  show ?thesis
    using per_share zero rows ex nth np
    by (simp add: shares_outstanding_def)
qed

text \<open>
  On the scenario: 800 of book value per share, and 800 * 1.12^5 in the fifth forecast
  year; with a share count of 0 the per-share metrics are 0; with the runaway earnings
  growth the projection of the earnings raises.
\<close>

theorem projection_formulas_witness:
  "book_value_per_share scenario = Inr (Fin 800) \<and>
   map_sum id (\<lambda>l. l ! 4) (bv_fv False scenario) = Inr (Fin (800 * (112 / 100) ^ 5)) \<and>
   eps_current (scenario\<lparr>Shares := Fin 0\<rparr>) = Inr (Fin 0) \<and>
   price_per runaway = Inl OverflowError"
proof -
  note t = projection_formulas [of scenario False "Fin 800" "Fin (12 / 100)" "112 / 100" 5]
  have so: "shares_outstanding scenario = Fin 10000000"
    using t [THEN conjunct1] by (simp add: scenario_def)
  have bv: "book_value_per_share scenario = Inr (Fin 800)"
    using t [THEN conjunct2, THEN conjunct1] unfolding so
    by (simp add: fgt_def scenario_def)
  have roe5: "ROE_5_Years scenario = Fin 12"
    by (simp add: scenario_def)
  have in_range: "powers_in_range (fadd (Fin 1) (fdiv (Fin 12) (Fin 100)))"
    by (simp add: small_powers_in_range)
  have fv: "bv_fv False scenario = Inr (projected (Fin 800) (Fin (12 / 100)))"
    using t [THEN conjunct2, THEN conjunct2, THEN conjunct2, THEN conjunct2, THEN conjunct2,
        THEN conjunct1] bv in_range
    by (auto simp: roe5)
  have nth: "projected (Fin 800) (Fin (12 / 100)) ! 4 =
      fmul (Fin 800) (np_pow (fadd (Fin 1) (Fin (12 / 100))) (4 + 1))"
    using t [THEN conjunct2, THEN conjunct2, THEN conjunct2, THEN conjunct2, THEN conjunct2,
        THEN conjunct2, THEN conjunct1, rule_format, of 4]
    by (simp del: np_pow.simps)
  have pw: "np_pow (Fin (112 / 100)) 5 = Fin ((112 / 100) ^ 5)"
    using t [THEN conjunct2, THEN conjunct2, THEN conjunct2, THEN conjunct2, THEN conjunct2,
        THEN conjunct2, THEN conjunct2, THEN conjunct1]
      small_power_in_range [of "112 / 100" 5]
    by (simp del: np_pow.simps)
  have row: "map_sum id (\<lambda>l. l ! 4) (bv_fv False scenario) = Inr (Fin (800 * (112 / 100) ^ 5))"
    using pw nth by (simp add: fv del: np_pow.simps)
  have zero: "eps_current (scenario\<lparr>Shares := Fin 0\<rparr>) = Inr (Fin 0)"
    using projection_formulas [of "scenario\<lparr>Shares := Fin 0\<rparr>",
        THEN conjunct2, THEN conjunct2, THEN conjunct2, THEN conjunct2, THEN conjunct1]
    by simp
  have "overflows ((1 + 10 ^ 80 / 100 :: real) ^ 4)"
    by (simp add: overflows_def overflow_bound_def)
  then have out: "\<not> powers_in_range (fadd (Fin 1) (fdiv (EPS_Growth_5_Years runaway) (Fin 100)))"
    by (simp add: powers_in_range_def upt5 pow_overflows_def runaway_def scenario_def)
  have "price_per runaway = Inl OverflowError"
    using projection_formulas [of runaway,
        THEN conjunct2, THEN conjunct2, THEN conjunct2, THEN conjunct2, THEN conjunct2,
        THEN conjunct1] out
    by auto
  with bv row zero show ?thesis
    by simp
qed

end
